theory Spec2Isabelle
  imports Main "HOL-Library.Multiset"
begin

section \<open>Python values used by the GitLab provider\<close>

text \<open>
  Strings are byte strings (UTF-8): a character outside ASCII is several \<open>char\<close>s.
  Every operation of the provider that is modelled below looks only at ASCII characters
  (\<open>/\<close>, the line feed, literal text), so it acts on the bytes as it acts on code points.
\<close>

datatype exc =
    ValueError string
  | TypeError
  | KeyError string
  | AttributeError string
  | HTTPError nat string

text \<open>
  A value produced by \<open>json.loads\<close>. \<open>JObj\<close> holds the items of the parsed dict (its keys
  are distinct); \<open>JNum\<close> stands for a JSON number.
\<close>

datatype json =
    JNull
  | JBool bool
  | JNum int
  | JStr string
  | JArr "json list"
  | JObj "(string \<times> json) list"

text \<open>\<open>x[key]\<close> with a string key: only a dict supports it, and a missing key raises.\<close>

fun getitem :: "json \<Rightarrow> string \<Rightarrow> exc + json" where
  "getitem (JObj kvs) key = (case map_of kvs key of None \<Rightarrow> Inl (KeyError key) | Some v \<Rightarrow> Inr v)"
| "getitem _ key = Inl TypeError"

text \<open>\<open>for entry in data\<close>: a list yields its items, a dict its keys, a string its
  one-character strings; anything else is not iterable.\<close>

fun py_iter :: "json \<Rightarrow> exc + json list" where
  "py_iter (JArr xs) = Inr xs"
| "py_iter (JObj kvs) = Inr (map (\<lambda>kv. JStr (fst kv)) kvs)"
| "py_iter (JStr s) = Inr (map (\<lambda>c. JStr [c]) s)"
| "py_iter _ = Inl TypeError"

fun py_len :: "json \<Rightarrow> exc + nat" where
  "py_len (JArr xs) = Inr (length xs)"
| "py_len (JObj kvs) = Inr (length kvs)"
| "py_len (JStr s) = Inr (length s)"
| "py_len _ = Inl TypeError"

text \<open>Truth value of a JSON value in a condition.\<close>

fun truthy :: "json \<Rightarrow> bool" where
  "truthy JNull = False"
| "truthy (JBool b) = b"
| "truthy (JNum n) = (n \<noteq> 0)"
| "truthy (JStr s) = (s \<noteq> [])"
| "truthy (JArr xs) = (xs \<noteq> [])"
| "truthy (JObj kvs) = (kvs \<noteq> [])"

text \<open>
  A dict as the list of its items, in insertion order. \<open>d[key] = v\<close> replaces the value of a
  key that is there and appends a new key; \<open>d.update(other)\<close> assigns the items of \<open>other\<close>
  in order.
\<close>

fun dict_set :: "('k \<times> 'v) list \<Rightarrow> 'k \<Rightarrow> 'v \<Rightarrow> ('k \<times> 'v) list" where
  "dict_set [] key v = [(key, v)]"
| "dict_set (kv # kvs) key v =
     (if fst kv = key then (key, v) # kvs else kv # dict_set kvs key v)"

fun dict_update :: "('k \<times> 'v) list \<Rightarrow> ('k \<times> 'v) list \<Rightarrow> ('k \<times> 'v) list" where
  "dict_update d [] = d"
| "dict_update d (kv # other) = dict_update (dict_set d (fst kv) (snd kv)) other"

definition startswith :: "string \<Rightarrow> string \<Rightarrow> bool" where
  "startswith s p = (take (length p) s = p)"

definition endswith :: "string \<Rightarrow> string \<Rightarrow> bool" where
  "endswith s p = (length p \<le> length s \<and> drop (length s - length p) s = p)"

text \<open>\<open>"%i" % n\<close> for a length.\<close>

definition digit :: "nat \<Rightarrow> char" where
  "digit d = char_of (48 + d)"

function dec :: "nat \<Rightarrow> string" where
  "dec n = (if n < 10 then [digit n] else dec (n div 10) @ [digit (n mod 10)])"
  by pat_completeness auto
termination
  by (relation "measure id") auto

declare dec.simps [simp del]

section \<open>Collaborators that are not part of the provider\<close>

text \<open>
  A tornado \<open>HTTPResponse\<close>: the error it carries, if any (\<open>rethrow\<close> raises it), and
  its body.
\<close>

record http_response =
  resp_error :: "exc option"
  resp_body :: string

text \<open>
  The helpers the provider imports from \<open>nbviewer.utils\<close> and from the standard library
  are parameters of the model: \<open>url_path_join\<close>, \<open>quote\<close> and \<open>response_text\<close> of
  \<open>utils\<close>, \<open>json.loads\<close>, and \<open>str()\<close> as \<open>str.format\<close> applies it to a value that is
  not a string.
\<close>

record env =
  url_path_join :: "string \<Rightarrow> string \<Rightarrow> string"
  quote :: "string \<Rightarrow> string"
  response_text :: "http_response \<Rightarrow> string"
  json_loads :: "string \<Rightarrow> exc + json"
  py_str :: "json \<Rightarrow> string"

section \<open>client.py: tree-entry extraction\<close>

text \<open>
  The loop of \<open>_extract_tree_entry\<close>:
  \<^verbatim>\<open>
  for entry in data:
      if entry['path'] == path:
          return entry
  \<close>
  \<open>Inr (Some entry)\<close> is the \<open>return\<close>, \<open>Inr None\<close> is falling out of the loop.
\<close>

fun scan_entries :: "string \<Rightarrow> json list \<Rightarrow> exc + json option" where
  "scan_entries path [] = Inr None"
| "scan_entries path (entry # rest) =
     (case getitem entry ''path'' of
        Inl e \<Rightarrow> Inl e
      | Inr p \<Rightarrow> if p = JStr path then Inr (Some entry) else scan_entries path rest)"

text \<open>
  \<^verbatim>\<open>
  def _extract_tree_entry(self, path, tree_response):
      tree_response.rethrow()
      jsondata = response_text(tree_response)
      data = json.loads(jsondata)
      for entry in data: ...
      raise HTTPError(404, "%s not found among %i files" % (path, len(data['tree'])))
  \<close>
\<close>

definition extract_tree_entry :: "env \<Rightarrow> string \<Rightarrow> http_response \<Rightarrow> exc + json" where
  "extract_tree_entry env path tree_response =
     (case resp_error tree_response of
        Some e \<Rightarrow> Inl e
      | None \<Rightarrow>
         (case json_loads env (response_text env tree_response) of
            Inl e \<Rightarrow> Inl e
          | Inr data \<Rightarrow>
             (case py_iter data of
                Inl e \<Rightarrow> Inl e
              | Inr entries \<Rightarrow>
                 (case scan_entries path entries of
                    Inl e \<Rightarrow> Inl e
                  | Inr (Some entry) \<Rightarrow> Inr entry
                  | Inr None \<Rightarrow>
                     (case getitem data ''tree'' of
                        Inl e \<Rightarrow> Inl e
                      | Inr t \<Rightarrow>
                         (case py_len t of
                            Inl e \<Rightarrow> Inl e
                          | Inr n \<Rightarrow>
                             Inl (HTTPError 404
                                   (path @ '' not found among '' @ dec n @ '' files''))))))))"

section \<open>client.py: the API client\<close>

text \<open>
  A value passed as a query parameter or as a keyword argument: \<open>None\<close>, \<open>True\<close>, a string,
  or a callable (named, never called by the model).
\<close>

datatype pval = PNone | PTrue | PStr string | PFun string

fun pval_truthy :: "pval \<Rightarrow> bool" where
  "pval_truthy PNone = False"
| "pval_truthy PTrue = True"
| "pval_truthy (PStr s) = (s \<noteq> [])"
| "pval_truthy (PFun f) = True"

text \<open>The query parameters of a request: a dict, as the list of its items.\<close>

type_synonym params = "(string \<times> pval) list"

text \<open>
  The keyword arguments \<open>**kwargs\<close> of a call. The keyword \<open>params\<close> is the only one the
  client reads; it is absent, \<open>None\<close> or a dict. \<open>kw_rest\<close> holds the other keywords.
\<close>

datatype params_kw = Absent | PyNone | Given params

record kwargs =
  kw_params :: params_kw
  kw_rest :: "string \<rightharpoonup> pval"

text \<open>
  The state of an \<open>AsyncGitLabClient\<close>. \<open>self.client\<close>, the HTTP client, is outside the
  model: a call of \<open>self.client.fetch\<close> is the value \<open>Inr\<close> of the request handed to it.
\<close>

record client =
  gitlab_url :: string
  gitlab_api_url :: string
  auth :: params

text \<open>
  What \<open>fetch\<close> hands to the HTTP client: \<open>self.client.fetch(url_concat(url, params),
  callback, **kwargs)\<close>, recorded as the two arguments of tornado's \<open>url_concat\<close>, the
  callback and the keywords.
\<close>

record request =
  req_url :: string
  req_params :: params
  req_callback :: pval
  req_kwargs :: "string \<rightharpoonup> pval"

text \<open>
  \<^verbatim>\<open>
  def authenticate(self):
      self.auth = {'private_token' : os.environ.get('GITLAB_API_TOKEN', '')}
      self.auth = {k:v for k,v in self.auth.items() if v}
  \<close>
  \<open>token\<close> is the value of the environment variable, \<open>''\<close> when it is not set.
\<close>

definition authenticate :: "string \<Rightarrow> params" where
  "authenticate token =
     (let auth0 = [(''private_token'', PStr token)]
      in filter (\<lambda>kv. pval_truthy (snd kv)) auth0)"

text \<open>
  \<^verbatim>\<open>
  def __init__(self, client=None):
      self.gitlab_url = os.environ.get('GITLAB_URL', '')
      self.gitlab_api_url = url_path_join(self.gitlab_url, quote("/api/v3"))
      self.authenticate()
  \<close>
\<close>

definition AsyncGitLabClient_init :: "env \<Rightarrow> string \<Rightarrow> string \<Rightarrow> client" where
  "AsyncGitLabClient_init env env_gitlab_url env_token =
     \<lparr>gitlab_url = env_gitlab_url,
      gitlab_api_url = url_path_join env env_gitlab_url (quote env ''/api/v3''),
      auth = authenticate env_token\<rparr>"

text \<open>
  \<^verbatim>\<open>
  def fetch(self, url, callback=None, params=None, **kwargs):
      if not url.startswith(self.gitlab_api_url):
          raise ValueError("Only fetch GitHub urls with GitHub auth (%s)" % url)
      params = {} if params is None else params
      kwargs.setdefault('user_agent', 'Tornado-Async-GitLab-Client')
      if self.auth:
          params.update(self.auth)
      url = url_concat(url, params)
      future = self.client.fetch(url, callback, **kwargs)
      return future
  \<close>
\<close>

definition fetch ::
  "client \<Rightarrow> string \<Rightarrow> pval \<Rightarrow> params option \<Rightarrow> (string \<rightharpoonup> pval) \<Rightarrow> exc + request" where
  "fetch c url callback params kwargs =
     (if \<not> startswith url (gitlab_api_url c)
      then Inl (ValueError (''Only fetch GitHub urls with GitHub auth ('' @ url @ '')''))
      else
        let params = (case params of None \<Rightarrow> [] | Some p \<Rightarrow> p);
            kwargs = (case kwargs ''user_agent'' of
                        None \<Rightarrow> kwargs(''user_agent'' \<mapsto> PStr ''Tornado-Async-GitLab-Client'')
                      | Some _ \<Rightarrow> kwargs);
            params = (if auth c \<noteq> [] then dict_update params (auth c) else params)
        in Inr \<lparr>req_url = url, req_params = params, req_callback = callback,
                req_kwargs = kwargs\<rparr>)"

text \<open>
  A keyword of \<open>**kwargs\<close> named like a parameter that the call already binds by position
  raises \<open>TypeError\<close> (multiple values for the argument).
\<close>

definition clash :: "string list \<Rightarrow> kwargs \<Rightarrow> bool" where
  "clash names kw = (\<exists>n \<in> set names. kw_rest kw n \<noteq> None)"

text \<open>The call \<open>self.fetch(url, callback, **kwargs)\<close>: the keyword \<open>params\<close> binds the
  parameter \<open>params\<close>, the other keywords stay in \<open>**kwargs\<close>.\<close>

definition call_fetch :: "client \<Rightarrow> string \<Rightarrow> pval \<Rightarrow> kwargs \<Rightarrow> exc + request" where
  "call_fetch c url callback kw =
     (if clash [''url'', ''callback''] kw then Inl TypeError
      else fetch c url callback (case kw_params kw of Given p \<Rightarrow> Some p | _ \<Rightarrow> None)
             (kw_rest kw))"

text \<open>
  \<^verbatim>\<open>
  def gitlab_api_request(self, path, callback=None, **kwargs):
      url = url_path_join(self.gitlab_api_url, quote(path))
      return self.fetch(url, callback, **kwargs)
  \<close>
\<close>

definition gitlab_api_request ::
  "env \<Rightarrow> client \<Rightarrow> string \<Rightarrow> pval \<Rightarrow> kwargs \<Rightarrow> exc + request" where
  "gitlab_api_request env c path callback kw =
     call_fetch c (url_path_join env (gitlab_api_url c) (quote env path)) callback kw"

text \<open>\<open>params = kwargs.setdefault('params', {})\<close>: \<open>params\<close> is then the dict stored in
  \<open>kwargs\<close>, so an assignment to \<open>params[k]\<close> is an update of \<open>kwargs\<close>.\<close>

definition setdefault_params :: "kwargs \<Rightarrow> kwargs" where
  "setdefault_params kw =
     (case kw_params kw of Absent \<Rightarrow> kw\<lparr>kw_params := Given []\<rparr> | _ \<Rightarrow> kw)"

text \<open>\<open>params[k] = v\<close>; \<open>None\<close> does not support item assignment.\<close>

definition params_setitem :: "string \<Rightarrow> pval \<Rightarrow> kwargs \<Rightarrow> exc + kwargs" where
  "params_setitem k v kw =
     (case kw_params kw of
        Given p \<Rightarrow> Inr (kw\<lparr>kw_params := Given (dict_set p k v)\<rparr>)
      | _ \<Rightarrow> Inl TypeError)"

text \<open>
  \<^verbatim>\<open>
  def get_projects(self, user, callback=None, **kwargs):
      path = u"projects"
      params = kwargs.setdefault('params', {})
      params['sudo'] = user
      return self.gitlab_api_request(path, callback, **kwargs)
  \<close>
\<close>

definition get_projects :: "env \<Rightarrow> client \<Rightarrow> string \<Rightarrow> pval \<Rightarrow> kwargs \<Rightarrow> exc + request" where
  "get_projects env c user callback kwargs =
     (case params_setitem ''sudo'' (PStr user) (setdefault_params kwargs) of
        Inl e \<Rightarrow> Inl e
      | Inr kw \<Rightarrow>
          if clash [''path'', ''callback''] kw then Inl TypeError
          else gitlab_api_request env c ''projects'' callback kw)"

text \<open>
  \<^verbatim>\<open>
  def get_file(self, user, repo, path, callback=None, ref=None, **kwargs):
      api = u'projects/{user}%2F{repo}/repository/files'.format(**locals())
      params = kwargs.setdefault('params', {})
      params['ref'] = ref
      params['file_path'] = path
      url = url_path_join(self.gitlab_api_url, api)
      return self.fetch(url, callback, **kwargs)
  \<close>
\<close>

definition get_file ::
  "env \<Rightarrow> client \<Rightarrow> string \<Rightarrow> string \<Rightarrow> pval \<Rightarrow> pval \<Rightarrow> pval \<Rightarrow> kwargs \<Rightarrow> exc + request" where
  "get_file env c user repo path callback ref kwargs =
     (let api = ''projects/'' @ user @ ''%2F'' @ repo @ ''/repository/files''
      in case params_setitem ''ref'' ref (setdefault_params kwargs) of
           Inl e \<Rightarrow> Inl e
         | Inr kw1 \<Rightarrow>
            (case params_setitem ''file_path'' path kw1 of
               Inl e \<Rightarrow> Inl e
             | Inr kw2 \<Rightarrow> call_fetch c (url_path_join env (gitlab_api_url c) api) callback kw2))"

text \<open>
  \<^verbatim>\<open>
  def get_contents(self, user, repo, path, callback=None, ref=None, **kwargs):
      path = u'repos/{user}/{repo}/contents/{path}'.format(**locals())
      if ref is not None:
          params = kwargs.setdefault('params', {})
          params['ref'] = ref
      return self.gitlab_api_request(path, callback, **kwargs)
  \<close>
\<close>

definition get_contents ::
  "env \<Rightarrow> client \<Rightarrow> string \<Rightarrow> string \<Rightarrow> string \<Rightarrow> pval \<Rightarrow> pval \<Rightarrow> kwargs \<Rightarrow> exc + request" where
  "get_contents env c user repo path callback ref kwargs =
     (case (if ref \<noteq> PNone then params_setitem ''ref'' ref (setdefault_params kwargs)
            else Inr kwargs) of
        Inl e \<Rightarrow> Inl e
      | Inr kw \<Rightarrow>
          if clash [''path'', ''callback''] kw then Inl TypeError
          else gitlab_api_request env c
                 (''repos/'' @ user @ ''/'' @ repo @ ''/contents/'' @ path) callback kw)"

text \<open>
  \<^verbatim>\<open>
  def get_tree(self, user, repo, path, ref=None, callback=None, **kwargs):
      api = u"projects/{user}%2F{repo}/repository/tree".format(**locals())
      params = kwargs.setdefault('params', {})
      if path:
          params['path'] = path
      if ref:
          params['ref_name'] = ref
      url = url_path_join(self.gitlab_api_url, api)
      return self.fetch(url, callback, **kwargs)
  \<close>
\<close>

definition get_tree ::
  "env \<Rightarrow> client \<Rightarrow> string \<Rightarrow> string \<Rightarrow> pval \<Rightarrow> pval \<Rightarrow> pval \<Rightarrow> kwargs \<Rightarrow> exc + request" where
  "get_tree env c user repo path ref callback kwargs =
     (let api = ''projects/'' @ user @ ''%2F'' @ repo @ ''/repository/tree'';
          kw0 = setdefault_params kwargs
      in case (if pval_truthy path then params_setitem ''path'' path kw0 else Inr kw0) of
           Inl e \<Rightarrow> Inl e
         | Inr kw1 \<Rightarrow>
            (case (if pval_truthy ref then params_setitem ''ref_name'' ref kw1 else Inr kw1) of
               Inl e \<Rightarrow> Inl e
             | Inr kw2 \<Rightarrow> call_fetch c (url_path_join env (gitlab_api_url c) api) callback kw2))"

text \<open>
  \<^verbatim>\<open>
  def get_tree_entry(self, user, repo, path, ref='master', callback=None, **kwargs):
      # only need a recursive fetch if it's not in the top-level dir
      if '/' in path:
          kwargs['recursive'] = True
      f = Future()
      def cb(response): ...
      self.get_tree(user, repo, ref=ref, callback=cb, **kwargs)
      return f
  \<close>
  The call of \<open>get_tree\<close> passes two positional arguments, which bind \<open>user\<close> and \<open>repo\<close>,
  and the keywords \<open>ref\<close>, \<open>callback\<close> and those of \<open>**kwargs\<close>. The required parameter
  \<open>path\<close> of \<open>get_tree\<close> is bound only if \<open>**kwargs\<close> holds a keyword \<open>path\<close>; otherwise the
  call raises \<open>TypeError\<close> (missing required positional argument) and \<open>get_tree_entry\<close>
  raises it to its caller before \<open>return f\<close>.
\<close>

definition get_tree_entry ::
  "env \<Rightarrow> client \<Rightarrow> string \<Rightarrow> string \<Rightarrow> string \<Rightarrow> pval \<Rightarrow> pval \<Rightarrow> kwargs \<Rightarrow> exc + request" where
  "get_tree_entry env c user repo path ref callback kwargs =
     (let kw = (if CHR ''/'' \<in> set path
                then kwargs\<lparr>kw_rest := (kw_rest kwargs)(''recursive'' \<mapsto> PTrue)\<rparr>
                else kwargs)
      in if clash [''user'', ''repo'', ''ref'', ''callback''] kw then Inl TypeError
         else case kw_rest kw ''path'' of
                None \<Rightarrow> Inl TypeError
              | Some p \<Rightarrow>
                  get_tree env c user repo p ref (PFun ''cb'')
                    (kw\<lparr>kw_rest := (kw_rest kw)(''path'' := None)\<rparr>))"

section \<open>handlers.py: classifying a directory listing\<close>

text \<open>An entry handed to the tree template: the dict \<open>e\<close> with its keys \<open>name\<close>, \<open>url\<close>
  and \<open>class\<close>.\<close>

record entry =
  e_name :: json
  e_url :: json
  e_class :: string

text \<open>A value substituted for a field of \<open>str.format\<close>.\<close>

definition format_value :: "env \<Rightarrow> json \<Rightarrow> string" where
  "format_value env v = (case v of JStr s \<Rightarrow> s | _ \<Rightarrow> py_str env v)"

text \<open>\<open>v.endswith(suffix)\<close>: only a string has the method.\<close>

definition py_endswith :: "json \<Rightarrow> string \<Rightarrow> exc + bool" where
  "py_endswith v suffix =
     (case v of JStr s \<Rightarrow> Inr (endswith s suffix) | _ \<Rightarrow> Inl (AttributeError ''endswith''))"

text \<open>
  The body of the loop of \<open>GitLabTreeHandler.get\<close>, on the three lists it appends to:
  \<^verbatim>\<open>
  for file in contents:
      e = {}
      e['name'] = file['name']
      if file['type'] == 'dir':
          e['url'] = u'/github/{user}/{repo}/tree/{ref}/{path}'.format(
              user=user, repo=repo, ref=ref, path=file['path'])
          e['url'] = quote(e['url'])
          e['class'] = 'fa-folder-open'
          dirs.append(e)
      elif file['name'].endswith('.ipynb'):
          e['url'] = u'/github/{user}/{repo}/blob/{ref}/{path}'.format(
              user=user, repo=repo, ref=ref, path=file['path'])
          e['url'] = quote(e['url'])
          e['class'] = 'fa-book'
          ipynbs.append(e)
      elif file['html_url']:
          e['url'] = file['html_url']
          e['class'] = 'fa-share'
          others.append(e)
      else:
          # submodules don't have html_url
          e['url'] = ''
          e['class'] = 'fa-folder-close'
          others.append(e)
  \<close>
\<close>

definition classify_file ::
  "env \<Rightarrow> string \<Rightarrow> string \<Rightarrow> string \<Rightarrow> entry list \<times> entry list \<times> entry list \<Rightarrow> json \<Rightarrow>
     exc + entry list \<times> entry list \<times> entry list" where
  "classify_file env user repo ref groups file =
     (case groups of (dirs, ipynbs, others) \<Rightarrow>
      (case getitem file ''name'' of
         Inl e \<Rightarrow> Inl e
       | Inr name \<Rightarrow>
          (case getitem file ''type'' of
             Inl e \<Rightarrow> Inl e
           | Inr ty \<Rightarrow>
              if ty = JStr ''dir'' then
                (case getitem file ''path'' of
                   Inl e \<Rightarrow> Inl e
                 | Inr p \<Rightarrow>
                     Inr (dirs @
                           [\<lparr>e_name = name,
                             e_url = JStr (quote env (''/github/'' @ user @ ''/'' @ repo @ ''/tree/''
                                                     @ ref @ ''/'' @ format_value env p)),
                             e_class = ''fa-folder-open''\<rparr>],
                          ipynbs, others))
              else
                (case py_endswith name ''.ipynb'' of
                   Inl e \<Rightarrow> Inl e
                 | Inr True \<Rightarrow>
                    (case getitem file ''path'' of
                       Inl e \<Rightarrow> Inl e
                     | Inr p \<Rightarrow>
                         Inr (dirs,
                              ipynbs @
                               [\<lparr>e_name = name,
                                 e_url = JStr (quote env (''/github/'' @ user @ ''/'' @ repo
                                                         @ ''/blob/'' @ ref @ ''/''
                                                         @ format_value env p)),
                                 e_class = ''fa-book''\<rparr>],
                              others))
                 | Inr False \<Rightarrow>
                    (case getitem file ''html_url'' of
                       Inl e \<Rightarrow> Inl e
                     | Inr h \<Rightarrow>
                         if truthy h
                         then Inr (dirs, ipynbs,
                                   others @ [\<lparr>e_name = name, e_url = h, e_class = ''fa-share''\<rparr>])
                         else Inr (dirs, ipynbs,
                                   others @ [\<lparr>e_name = name, e_url = JStr [],
                                              e_class = ''fa-folder-close''\<rparr>]))))))"

fun classify_loop ::
  "env \<Rightarrow> string \<Rightarrow> string \<Rightarrow> string \<Rightarrow> entry list \<times> entry list \<times> entry list \<Rightarrow> json list \<Rightarrow>
     exc + entry list \<times> entry list \<times> entry list" where
  "classify_loop env user repo ref groups [] = Inr groups"
| "classify_loop env user repo ref groups (file # files) =
     (case classify_file env user repo ref groups file of
        Inl e \<Rightarrow> Inl e
      | Inr groups' \<Rightarrow> classify_loop env user repo ref groups' files)"

text \<open>
  The classifier: the three lists start empty, the loop fills them, and
  \<^verbatim>\<open>
  entries.extend(dirs)
  entries.extend(ipynbs)
  entries.extend(others)
  \<close>
  concatenates them.
\<close>

definition classify :: "env \<Rightarrow> string \<Rightarrow> string \<Rightarrow> string \<Rightarrow> json list \<Rightarrow> exc + entry list" where
  "classify env user repo ref contents =
     (case classify_loop env user repo ref ([], [], []) contents of
        Inl e \<Rightarrow> Inl e
      | Inr (dirs, ipynbs, others) \<Rightarrow> Inr (dirs @ ipynbs @ others))"

text \<open>
  The vocabulary of the statements about the classifier, named after the lists of the code.
  An item goes to \<open>dirs\<close> when the first test of the \<open>if\<close>/\<open>elif\<close> chain holds, that is when
  \<open>file['type'] == 'dir'\<close>; to \<open>ipynbs\<close> when that test fails and its name ends in \<open>.ipynb\<close>;
  to \<open>others\<close> otherwise. These are the tests as the code writes them: \<open>dir\<close> is not the
  type tag \<open>tree\<close> that a directory has in a tree listing.
\<close>

definition in_dirs :: "json \<Rightarrow> bool" where
  "in_dirs file = (getitem file ''type'' = Inr (JStr ''dir''))"

definition in_ipynbs :: "json \<Rightarrow> bool" where
  "in_ipynbs file =
     (\<not> in_dirs file \<and>
      (case getitem file ''name'' of Inr (JStr n) \<Rightarrow> endswith n ''.ipynb'' | _ \<Rightarrow> False))"

definition in_others :: "json \<Rightarrow> bool" where
  "in_others file = (\<not> in_dirs file \<and> \<not> in_ipynbs file)"

text \<open>
  The items on which the body of the loop raises nothing: a dict with the keys \<open>name\<close> and
  \<open>type\<close> and with the key its branch reads, \<open>path\<close> in the first two branches (the
  second needs a string for a name, to call \<open>endswith\<close>), \<open>html_url\<close> in the last two.
\<close>

definition classifiable :: "json \<Rightarrow> bool" where
  "classifiable file =
     (case file of
        JObj kvs \<Rightarrow>
          (case map_of kvs ''name'' of
             None \<Rightarrow> False
           | Some name \<Rightarrow>
              (case map_of kvs ''type'' of
                 None \<Rightarrow> False
               | Some ty \<Rightarrow>
                   if ty = JStr ''dir'' then map_of kvs ''path'' \<noteq> None
                   else
                     (case name of
                        JStr n \<Rightarrow>
                          if endswith n ''.ipynb'' then map_of kvs ''path'' \<noteq> None
                          else map_of kvs ''html_url'' \<noteq> None
                      | _ \<Rightarrow> False)))
      | _ \<Rightarrow> False)"

text \<open>The value stored under a key of a dict, \<open>None\<close> where there is none.\<close>

definition field :: "json \<Rightarrow> string \<Rightarrow> json" where
  "field file key = (case getitem file key of Inr v \<Rightarrow> v | Inl _ \<Rightarrow> JNull)"

text \<open>The entry built for an item, by the list it goes to.\<close>

definition entry_of :: "env \<Rightarrow> string \<Rightarrow> string \<Rightarrow> string \<Rightarrow> json \<Rightarrow> entry" where
  "entry_of env user repo ref file =
     (if in_dirs file then
        \<lparr>e_name = field file ''name'',
         e_url = JStr (quote env (''/github/'' @ user @ ''/'' @ repo @ ''/tree/'' @ ref @ ''/''
                                 @ format_value env (field file ''path''))),
         e_class = ''fa-folder-open''\<rparr>
      else if in_ipynbs file then
        \<lparr>e_name = field file ''name'',
         e_url = JStr (quote env (''/github/'' @ user @ ''/'' @ repo @ ''/blob/'' @ ref @ ''/''
                                 @ format_value env (field file ''path''))),
         e_class = ''fa-book''\<rparr>
      else if truthy (field file ''html_url'') then
        \<lparr>e_name = field file ''name'', e_url = field file ''html_url'', e_class = ''fa-share''\<rparr>
      else
        \<lparr>e_name = field file ''name'', e_url = JStr [], e_class = ''fa-folder-close''\<rparr>)"

section \<open>handlers.py: the tree handler\<close>

text \<open>
  What a request handler does with a request: it redirects, it renders the tree template
  (the arguments of \<open>render_template\<close> that the handler computes), it ends with the error
  page its error boundary makes of an upstream error, or an exception leaves \<open>get\<close>.
\<close>

record tree_view =
  tv_entries :: "entry list"
  tv_breadcrumbs :: "json list"
  tv_provider_url :: string
  tv_branches :: json
  tv_tags :: json

datatype outcome =
    Redirect string
  | Render tree_view
  | ErrorPage exc
  | Raised exc

text \<open>
  The handler with what it gets from the web layer and from the network: the URI of the
  request, \<open>self.format_prefix\<close>, the two environment variables the client reads, the
  response (or the error) that waiting for a request gives, \<open>self.breadcrumbs\<close> of the base
  handler, and \<open>call_attr name user repo\<close>, the result of calling an attribute of the client
  that exists under \<open>name\<close> with \<open>(user, repo)\<close> and waiting for it.
\<close>

record handler =
  request_uri :: string
  format_prefix :: string
  env_gitlab_url :: string
  env_gitlab_api_token :: string
  upstream :: "request \<Rightarrow> exc + http_response"
  breadcrumbs :: "string \<Rightarrow> string \<Rightarrow> json list"
  call_attr :: "string \<Rightarrow> string \<Rightarrow> string \<Rightarrow> exc + http_response"

text \<open>
  Modelled from the spec: \<open>catch_client_error\<close> of the base handler, which is not under
  \<open>src/\<close>. The spec calls it a scoped error-translation boundary around every network call
  site, which converts an upstream HTTP error into the handler's termination response and
  halts the pipeline. An exception that is not an upstream error is not translated.
\<close>

definition catch_client_error :: "exc \<Rightarrow> outcome" where
  "catch_client_error e = (case e of HTTPError code msg \<Rightarrow> ErrorPage e | _ \<Rightarrow> Raised e)"

text \<open>
  The names an \<open>AsyncGitLabClient\<close> has: the class attribute, the methods of the class and
  the attributes \<open>__init__\<close> sets. \<open>getattr(self.gitlab_client, name)\<close> raises
  \<open>AttributeError\<close> for any other name (the class defines no \<open>__getattr__\<close>).
\<close>

definition AsyncGitLabClient_attrs :: "string list" where
  "AsyncGitLabClient_attrs =
     [''auth'', ''__init__'', ''authenticate'', ''fetch'', ''gitlab_api_request'',
      ''get_projects'', ''get_file'', ''get_contents'', ''get_tree'', ''_extract_tree_entry'',
      ''get_tree_entry'', ''client'', ''gitlab_url'', ''gitlab_api_url'']"

definition getattr_client :: "string \<Rightarrow> exc + string" where
  "getattr_client name =
     (if name \<in> set AsyncGitLabClient_attrs then Inr name else Inl (AttributeError name))"

text \<open>
  \<^verbatim>\<open>
  def refs(self, user, repo):
      ref_types = ("branches", "tags")
      ref_data = [None, None]
      for i, ref_type in enumerate(ref_types):
          with self.catch_client_error():
              response = yield getattr(self.gitlab_client, "get_%s" % ref_type)(user, repo)
          ref_data[i] = json.loads(response_text(response))
      raise gen.Return(ref_data)
  \<close>
\<close>

fun refs_loop :: "env \<Rightarrow> handler \<Rightarrow> string \<Rightarrow> string \<Rightarrow> string list \<Rightarrow> outcome + json list" where
  "refs_loop env h user repo [] = Inr []"
| "refs_loop env h user repo (ref_type # ref_types) =
     (case getattr_client (''get_'' @ ref_type) of
        Inl e \<Rightarrow> Inl (catch_client_error e)
      | Inr method \<Rightarrow>
         (case call_attr h method user repo of
            Inl e \<Rightarrow> Inl (catch_client_error e)
          | Inr response \<Rightarrow>
             (case json_loads env (response_text env response) of
                Inl e \<Rightarrow> Inl (Raised e)
              | Inr v \<Rightarrow>
                 (case refs_loop env h user repo ref_types of
                    Inl out \<Rightarrow> Inl out
                  | Inr vs \<Rightarrow> Inr (v # vs)))))"

definition refs :: "env \<Rightarrow> handler \<Rightarrow> string \<Rightarrow> string \<Rightarrow> outcome + json list" where
  "refs env h user repo = refs_loop env h user repo [''branches'', ''tags'']"

text \<open>\<open>branches + tags\<close>: two lists, two strings or two numbers can be added.\<close>

fun num_of :: "json \<Rightarrow> int option" where
  "num_of (JNum n) = Some n"
| "num_of (JBool b) = Some (if b then 1 else 0)"
| "num_of _ = None"

fun py_add :: "json \<Rightarrow> json \<Rightarrow> exc + json" where
  "py_add (JArr a) (JArr b) = Inr (JArr (a @ b))"
| "py_add (JStr a) (JStr b) = Inr (JStr (a @ b))"
| "py_add x y =
     (case (num_of x, num_of y) of
        (Some a, Some b) \<Rightarrow> Inr (JNum (a + b))
      | _ \<Rightarrow> Inl TypeError)"

text \<open>
  \<^verbatim>\<open>
  for nav_ref in branches + tags:
      nav_ref["url"] = (u"/github/{user}/{repo}/tree/{ref}/{path}"
          .format(ref=nav_ref["name"], user=user, repo=repo, path=path))
  \<close>
  The loop updates the dicts that \<open>branches\<close> and \<open>tags\<close> hold; the function returns the
  items of \<open>branches + tags\<close> after the loop.
\<close>

fun nav_urls :: "env \<Rightarrow> string \<Rightarrow> string \<Rightarrow> string \<Rightarrow> json list \<Rightarrow> exc + json list" where
  "nav_urls env user repo path [] = Inr []"
| "nav_urls env user repo path (nav_ref # rest) =
     (case getitem nav_ref ''name'' of
        Inl e \<Rightarrow> Inl e
      | Inr name \<Rightarrow>
         (case nav_ref of
            JObj kvs \<Rightarrow>
              (case nav_urls env user repo path rest of
                 Inl e \<Rightarrow> Inl e
               | Inr rest' \<Rightarrow>
                   Inr (JObj (dict_set kvs ''url''
                               (JStr (''/github/'' @ user @ ''/'' @ repo @ ''/tree/''
                                      @ format_value env name @ ''/'' @ path)))
                        # rest'))
          | _ \<Rightarrow> Inl TypeError))"

text \<open>\<open>path.rstrip('/')\<close>\<close>

definition rstrip_slash :: "string \<Rightarrow> string" where
  "rstrip_slash s = rev (dropWhile (\<lambda>c. c = CHR ''/'') (rev s))"

text \<open>
  \<^verbatim>\<open>
  def get(self, user, repo, ref, path):
      if not self.request.uri.endswith('/'):
          self.redirect(self.request.uri + '/')
          return
      path = path.rstrip('/')
      with self.catch_client_error():
          response = yield self.gitlab_client.get_contents(user, repo, path, ref=ref)
      contents = json.loads(response_text(response))
      branches, tags = yield self.refs(user, repo)
      for nav_ref in branches + tags: ...
      if not isinstance(contents, list):
          self.redirect(
              u"{format}/github/{user}/{repo}/blob/{ref}/{path}".format(
                  format=self.format_prefix, user=user, repo=repo, ref=ref, path=path))
          return
      base_url = u"/github/{user}/{repo}/tree/{ref}".format(user=user, repo=repo, ref=ref)
      provider_url = u"https://github.com/{user}/{repo}/tree/{ref}/{path}".format(...)
      breadcrumbs = [{'url' : base_url, 'name' : repo}]
      breadcrumbs.extend(self.breadcrumbs(path, base_url))
      ... the classifier ...
      html = self.render_template("treelist.html", entries=entries, ...)
      yield self.cache_and_finish(html)
  \<close>
  \<open>self.gitlab_client\<close> is \<open>AsyncGitLabClient(self.client)\<close>.
\<close>

definition GitLabTreeHandler_get ::
  "env \<Rightarrow> handler \<Rightarrow> string \<Rightarrow> string \<Rightarrow> string \<Rightarrow> string \<Rightarrow> outcome" where
  "GitLabTreeHandler_get env h user repo ref path0 =
     (if \<not> endswith (request_uri h) ''/'' then Redirect (request_uri h @ ''/'')
      else
        let path = rstrip_slash path0;
            c = AsyncGitLabClient_init env (env_gitlab_url h) (env_gitlab_api_token h)
        in
        case (case get_contents env c user repo path PNone (PStr ref)
                     \<lparr>kw_params = Absent, kw_rest = Map.empty\<rparr> of
                Inl e \<Rightarrow> Inl e
              | Inr req \<Rightarrow> upstream h req) of
          Inl e \<Rightarrow> catch_client_error e
        | Inr response \<Rightarrow>
           (case json_loads env (response_text env response) of
              Inl e \<Rightarrow> Raised e
            | Inr contents \<Rightarrow>
               (case refs env h user repo of
                  Inl out \<Rightarrow> out
                | Inr ref_data \<Rightarrow>
                   (case ref_data of
                      [branches, tags] \<Rightarrow>
                        (case py_add branches tags of
                           Inl e \<Rightarrow> Raised e
                         | Inr both \<Rightarrow>
                            (case py_iter both of
                               Inl e \<Rightarrow> Raised e
                             | Inr nav_refs \<Rightarrow>
                                (case nav_urls env user repo path nav_refs of
                                   Inl e \<Rightarrow> Raised e
                                 | Inr nav_refs' \<Rightarrow>
                                    (case contents of
                                       JArr files \<Rightarrow>
                                         (case classify env user repo ref files of
                                            Inl e \<Rightarrow> Raised e
                                          | Inr entries \<Rightarrow>
                                              Render
                                               \<lparr>tv_entries = entries,
                                                tv_breadcrumbs =
                                                  JObj [(''url'', JStr (''/github/'' @ user @ ''/'' @ repo @ ''/tree/'' @ ref)),
                                                        (''name'', JStr repo)]
                                                  # breadcrumbs h path
                                                      (''/github/'' @ user @ ''/'' @ repo @ ''/tree/'' @ ref),
                                                tv_provider_url =
                                                  ''https://github.com/'' @ user @ ''/'' @ repo
                                                  @ ''/tree/'' @ ref @ ''/'' @ path,
                                                tv_branches =
                                                  (case branches of
                                                     JArr bs \<Rightarrow> JArr (take (length bs) nav_refs')
                                                   | _ \<Rightarrow> branches),
                                                tv_tags =
                                                  (case branches of
                                                     JArr bs \<Rightarrow> JArr (drop (length bs) nav_refs')
                                                   | _ \<Rightarrow> tags)\<rparr>)
                                     | _ \<Rightarrow>
                                         Redirect (format_prefix h @ ''/github/'' @ user @ ''/''
                                                   @ repo @ ''/blob/'' @ ref @ ''/'' @ path)))))
                    | _ \<Rightarrow> Raised (ValueError ''unpack'')))))"

section \<open>handlers.py: the URL rewrite rules\<close>

text \<open>\<open>gitlab_url.replace('.', r'\.')\<close>; the backslash is the character \<open>0x5C\<close>.\<close>

definition replace_dot :: "string \<Rightarrow> string" where
  "replace_dot s = concat (map (\<lambda>c. if c = CHR ''.'' then [CHR 0x5C, CHR ''.''] else [c]) s)"

text \<open>
  \<^verbatim>\<open>
  def uri_rewrites(rewrites=[]):
      gitlab_url = os.environ.get('GITLAB_URL', '')
      return [
          (r'^' + gitlab_url.replace('.', r'\.') + r'/([^\/]+)/([^\/]+)/(blob|tree)/(.*)$',
           u'/gitlab/{0}/{1}/{2}/{3}')
      ] + rewrites
  \<close>
  A rule is the text of a regular expression and the text of a format template; \<open>base\<close>
  is the value of the environment variable \<open>GITLAB_URL\<close>, \<open>''\<close> when it is not set.
\<close>

definition uri_rewrites :: "string \<Rightarrow> (string \<times> string) list \<Rightarrow> (string \<times> string) list" where
  "uri_rewrites base rewrites =
     (''^'' @ replace_dot base
        @ ''/([^'' @ [CHR 0x5C] @ ''/]+)/([^'' @ [CHR 0x5C] @ ''/]+)/(blob|tree)/(.*)$'',
      ''/gitlab/{0}/{1}/{2}/{3}'') # rewrites"

subsection \<open>The fragment of Python's regular expressions that the rule uses\<close>

text \<open>
  The text of a pattern is cut into tokens: \<open>^\<close>, \<open>$\<close>, \<open>.\<close>, a literal character (written
  as it is, or after a backslash when it is not a letter or a digit), a negated set
  \<open>[^...]\<close>, \<open>+\<close>, \<open>*\<close>, \<open>(\<close>, \<open>)\<close> and \<open>|\<close>. A pattern with anything else (\<open>?\<close>, braces,
  a set that is not negated, a range, a backslash before a letter or a digit) is outside
  the fragment, and the result is \<open>None\<close>.
\<close>

datatype tok = TBol | TEol | TAny | TChr char | TNone string | TPlus | TStar | TOpen | TClose | TBar

definition is_alnum :: "char \<Rightarrow> bool" where
  "is_alnum c =
     (let n = (of_char c :: nat)
      in (48 \<le> n \<and> n \<le> 57) \<or> (65 \<le> n \<and> n \<le> 90) \<or> (97 \<le> n \<and> n \<le> 122))"

text \<open>The first argument is \<open>Some\<close> of the members read so far inside a negated set.\<close>

fun re_lex :: "string option \<Rightarrow> string \<Rightarrow> tok list option" where
  "re_lex None [] = Some []"
| "re_lex None (c # s) =
     (if c = CHR 0x5C then
        (case s of
           [] \<Rightarrow> None
         | d # s' \<Rightarrow> if is_alnum d then None else map_option (Cons (TChr d)) (re_lex None s'))
      else if c = CHR ''['' then
        (case s of
           [] \<Rightarrow> None
         | d # s' \<Rightarrow> if d = CHR ''^'' then re_lex (Some []) s' else None)
      else if c = CHR ''^'' then map_option (Cons TBol) (re_lex None s)
      else if c = CHR ''$'' then map_option (Cons TEol) (re_lex None s)
      else if c = CHR ''.'' then map_option (Cons TAny) (re_lex None s)
      else if c = CHR ''+'' then map_option (Cons TPlus) (re_lex None s)
      else if c = CHR ''*'' then map_option (Cons TStar) (re_lex None s)
      else if c = CHR ''('' then map_option (Cons TOpen) (re_lex None s)
      else if c = CHR '')'' then map_option (Cons TClose) (re_lex None s)
      else if c = CHR ''|'' then map_option (Cons TBar) (re_lex None s)
      else if c = CHR ''?'' \<or> c = CHR ''{'' \<or> c = CHR ''}'' \<or> c = CHR '']'' then None
      else map_option (Cons (TChr c)) (re_lex None s))"
| "re_lex (Some acc) [] = None"
| "re_lex (Some acc) (c # s) =
     (if c = CHR '']'' then
        (if acc = [] then None else map_option (Cons (TNone acc)) (re_lex None s))
      else if c = CHR 0x5C then
        (case s of
           [] \<Rightarrow> None
         | d # s' \<Rightarrow> if is_alnum d then None else re_lex (Some (acc @ [d])) s')
      else if c = CHR ''-'' \<or> c = CHR ''['' then None
      else re_lex (Some (acc @ [c])) s)"

text \<open>
  A set of characters that one position matches: \<open>.\<close> is any character but the line feed,
  a literal is itself, \<open>[^...]\<close> is any character that is not a member.
\<close>

datatype cls = Any | Only char | NoneOf string

fun in_cls :: "cls \<Rightarrow> char \<Rightarrow> bool" where
  "in_cls Any x = (x \<noteq> CHR 0x0A)"
| "in_cls (Only c) x = (x = c)"
| "in_cls (NoneOf cs) x = (x \<notin> set cs)"

text \<open>
  A pattern of the fragment is a sequence of pieces: a run of items outside any group, or
  a capturing group with its alternatives, each a run of items. Groups do not nest and
  carry no \<open>+\<close> or \<open>*\<close>; those apply to one position.
\<close>

datatype item = Bol | Eol | One cls | Plus cls | Star cls

datatype piece = Run "item list" | Group "item list list"

fun atom :: "tok \<Rightarrow> cls option" where
  "atom TAny = Some Any"
| "atom (TChr c) = Some (Only c)"
| "atom (TNone cs) = Some (NoneOf cs)"
| "atom _ = None"

fun items :: "tok list \<Rightarrow> item list option" where
  "items [] = Some []"
| "items (t # ts) =
     (case atom t of
        Some k \<Rightarrow>
          (case ts of
             [] \<Rightarrow> Some [One k]
           | u # ts' \<Rightarrow>
               if u = TPlus then map_option (Cons (Plus k)) (items ts')
               else if u = TStar then map_option (Cons (Star k)) (items ts')
               else map_option (Cons (One k)) (items ts))
      | None \<Rightarrow>
          if t = TBol then map_option (Cons Bol) (items ts)
          else if t = TEol then map_option (Cons Eol) (items ts)
          else None)"

text \<open>The tokens between two \<open>|\<close>.\<close>

fun split_bar :: "tok list \<Rightarrow> tok list \<Rightarrow> tok list list" where
  "split_bar acc [] = [acc]"
| "split_bar acc (t # ts) =
     (if t = TBar then acc # split_bar [] ts else split_bar (acc @ [t]) ts)"

text \<open>The tokens outside groups (\<open>False\<close>) and inside each group (\<open>True\<close>), in order.\<close>

fun segs :: "tok list \<Rightarrow> bool \<Rightarrow> tok list \<Rightarrow> (bool \<times> tok list) list option" where
  "segs acc False [] = Some [(False, acc)]"
| "segs acc True [] = None"
| "segs acc g (t # ts) =
     (if t = TOpen then (if g then None else map_option (Cons (False, acc)) (segs [] True ts))
      else if t = TClose then (if g then map_option (Cons (True, acc)) (segs [] False ts) else None)
      else segs (acc @ [t]) g ts)"

fun all_some :: "'a option list \<Rightarrow> 'a list option" where
  "all_some [] = Some []"
| "all_some (x # xs) =
     (case x of
        None \<Rightarrow> None
      | Some y \<Rightarrow> (case all_some xs of None \<Rightarrow> None | Some ys \<Rightarrow> Some (y # ys)))"

definition piece_of :: "bool \<times> tok list \<Rightarrow> piece option" where
  "piece_of seg =
     (if fst seg then map_option Group (all_some (map items (split_bar [] (snd seg))))
      else map_option Run (items (snd seg)))"

definition re_compile :: "string \<Rightarrow> piece list option" where
  "re_compile pattern =
     (case re_lex None pattern of
        None \<Rightarrow> None
      | Some toks \<Rightarrow>
         (case segs [] False toks of
            None \<Rightarrow> None
          | Some sgs \<Rightarrow> all_some (map piece_of sgs)))"

text \<open>
  Matching by backtracking, as \<open>re\<close> does it: \<open>cont\<close> is the match of the rest of the
  pattern on the rest of the string, \<open>+\<close> and \<open>*\<close> are greedy (the longest repetition is
  tried first, then shorter ones), and the alternatives of a group are tried left to
  right. \<open>n\<close> is the length of the whole string: \<open>^\<close> matches at its start only. \<open>$\<close>
  matches at the end of the string and before a line feed that ends it.
\<close>

fun m_star :: "cls \<Rightarrow> (string \<Rightarrow> 'r option) \<Rightarrow> string \<Rightarrow> 'r option" where
  "m_star k cont [] = cont []"
| "m_star k cont (x # s) =
     (if in_cls k x
      then (case m_star k cont s of Some r \<Rightarrow> Some r | None \<Rightarrow> cont (x # s))
      else cont (x # s))"

fun m_items :: "nat \<Rightarrow> item list \<Rightarrow> (string \<Rightarrow> 'r option) \<Rightarrow> string \<Rightarrow> 'r option" where
  "m_items n [] cont s = cont s"
| "m_items n (Bol # its) cont s = (if length s = n then m_items n its cont s else None)"
| "m_items n (Eol # its) cont s =
     (if s = [] \<or> s = [CHR 0x0A] then m_items n its cont s else None)"
| "m_items n (One k # its) cont s =
     (case s of [] \<Rightarrow> None | x # s' \<Rightarrow> if in_cls k x then m_items n its cont s' else None)"
| "m_items n (Star k # its) cont s = m_star k (m_items n its cont) s"
| "m_items n (Plus k # its) cont s =
     (case s of
        [] \<Rightarrow> None
      | x # s' \<Rightarrow> if in_cls k x then m_star k (m_items n its cont) s' else None)"

fun m_alts :: "nat \<Rightarrow> item list list \<Rightarrow> (string \<Rightarrow> 'r option) \<Rightarrow> string \<Rightarrow> 'r option" where
  "m_alts n [] cont s = None"
| "m_alts n (a # alts) cont s =
     (case m_items n a cont s of Some r \<Rightarrow> Some r | None \<Rightarrow> m_alts n alts cont s)"

text \<open>The groups captured so far are \<open>gs\<close>; a group captures what its alternative consumed.\<close>

fun m_pieces :: "nat \<Rightarrow> piece list \<Rightarrow> string list \<Rightarrow> string \<Rightarrow> string list option" where
  "m_pieces n [] gs s = Some gs"
| "m_pieces n (Run its # ps) gs s = m_items n its (\<lambda>s'. m_pieces n ps gs s') s"
| "m_pieces n (Group alts # ps) gs s =
     m_alts n alts (\<lambda>s'. m_pieces n ps (gs @ [take (length s - length s') s]) s') s"

text \<open>
  \<open>re.match(pattern, string)\<close> followed by \<open>.groups()\<close>: \<open>None\<close> for a pattern outside the
  fragment, \<open>Some None\<close> for no match, \<open>Some (Some groups)\<close> for a match.
\<close>

definition re_match :: "string \<Rightarrow> string \<Rightarrow> string list option option" where
  "re_match pattern s = map_option (\<lambda>ps. m_pieces (length s) ps [] s) (re_compile pattern)"

text \<open>
  \<open>template.format(*args)\<close> for a template whose fields are \<open>{0}\<close> to \<open>{9}\<close>; \<open>None\<close> for
  any other use of a brace and for an index out of range.
\<close>

fun py_format :: "string \<Rightarrow> string list \<Rightarrow> string option" where
  "py_format [] args = Some []"
| "py_format (c # t) args =
     (if c = CHR ''{'' then
        (case t of
           d # e # t' \<Rightarrow>
             (let i = (of_char d :: nat) - 48
              in if 48 \<le> (of_char d :: nat) \<and> (of_char d :: nat) \<le> 57 \<and> e = CHR ''}''
                    \<and> i < length args
                 then map_option (\<lambda>r. args ! i @ r) (py_format t' args)
                 else None)
         | _ \<Rightarrow> None)
      else if c = CHR ''}'' then None
      else map_option (Cons c) (py_format t args))"

text \<open>
  Modelled from the spec: the URI-transform collaborator \<open>transform_ipynb_uri\<close> of
  \<open>nbviewer.utils\<close>, which is not under \<open>src/\<close>; the tests call it as
  \<open>transform_ipynb_uri(uri, uri_rewrite_list)\<close>. The spec says that it consults the rule
  set and that a URL matching a rule's pattern is rewritten to the rule's template, filled
  with the captured segments. The first rule that matches is applied. What the collaborator
  returns when no rule matches is not specified: the model returns \<open>NoRule\<close>.
\<close>

datatype rewritten = Rewritten string | NoRule | Unsupported

fun transform_ipynb_uri :: "string \<Rightarrow> (string \<times> string) list \<Rightarrow> rewritten" where
  "transform_ipynb_uri uri [] = NoRule"
| "transform_ipynb_uri uri (rule # rules) =
     (case re_match (fst rule) uri of
        None \<Rightarrow> Unsupported
      | Some None \<Rightarrow> transform_ipynb_uri uri rules
      | Some (Some groups) \<Rightarrow>
          (case py_format (snd rule) groups of
             None \<Rightarrow> Unsupported
           | Some out \<Rightarrow> Rewritten out))"

text \<open>
  A base URL with no character that is special in a regular expression, the dot apart
  (which \<open>replace\<close> escapes): the rule's pattern then matches the base URL literally.
\<close>

definition plain_url :: "string \<Rightarrow> bool" where
  "plain_url base =
     list_all (\<lambda>c. c \<notin> set (CHR 0x5C # ''^$|?*+()[]{}'')) base"

section \<open>Example inputs\<close>

text \<open>
  An instance of the collaborators for the examples: \<open>url_path_join\<close> joins two pieces with
  one \<open>/\<close> (dropping the slashes the second one starts with), \<open>quote\<close> leaves its argument as it is (as it does on letters, digits, \<open>/\<close>,
  \<open>.\<close>, \<open>-\<close> and \<open>_\<close>), and \<open>json.loads\<close> knows the two bodies used below.
\<close>

definition example_listing :: json where
  "example_listing =
     JArr [JObj [(''name'', JStr ''README.md''), (''type'', JStr ''file''),
                 (''path'', JStr ''README.md''), (''html_url'', JStr ''https://gitlab.com/u/r/blob/master/README.md'')],
           JObj [(''name'', JStr ''a.ipynb''), (''type'', JStr ''file''),
                 (''path'', JStr ''a.ipynb''), (''html_url'', JStr ''https://gitlab.com/u/r/blob/master/a.ipynb'')],
           JObj [(''name'', JStr ''sub''), (''type'', JStr ''dir''),
                 (''path'', JStr ''sub''), (''html_url'', JStr ''https://gitlab.com/u/r/tree/master/sub'')],
           JObj [(''name'', JStr ''mod''), (''type'', JStr ''submodule''),
                 (''path'', JStr ''mod''), (''html_url'', JNull)]]"

definition example_env :: env where
  "example_env =
     \<lparr>url_path_join = (\<lambda>a b. a @ ''/'' @ dropWhile (\<lambda>c. c = CHR ''/'') b),
      quote = (\<lambda>s. s),
      response_text = resp_body,
      json_loads = (\<lambda>s. if s = ''listing'' then Inr example_listing
                          else if s = ''file'' then Inr (JObj [(''content'', JStr ''e30='')])
                          else Inl (ValueError ''No JSON object could be decoded'')),
      py_str = (\<lambda>v. ''None'')\<rparr>"

definition example_response :: http_response where
  "example_response = \<lparr>resp_error = None, resp_body = ''listing''\<rparr>"

definition example_handler :: handler where
  "example_handler =
     \<lparr>request_uri = ''/gitlab/u/r/tree/master/a.ipynb/'',
      format_prefix = [],
      env_gitlab_url = ''https://gitlab.com'',
      env_gitlab_api_token = ''s3cret'',
      upstream = (\<lambda>req. Inr \<lparr>resp_error = None, resp_body = ''file''\<rparr>),
      breadcrumbs = (\<lambda>path base_url. []),
      call_attr = (\<lambda>name user repo. Inr \<lparr>resp_error = None, resp_body = ''listing''\<rparr>)\<rparr>"

text \<open>The path tail of the URLs in \<open>tests/test_handlers.py\<close>, \<open>a m\<close>, three two-byte
  letters and \<open>ka.ipynb\<close>, in UTF-8.\<close>

definition test_tail :: string where
  "test_tail = ''a m'' @ [CHR 0xC5, CHR 0x99, CHR 0xC3, CHR 0xAD, CHR 0xC5, CHR 0xBE] @ ''ka.ipynb''"

section \<open>Path resolution\<close>

lemma scan_entries_find:
  "\<forall>e \<in> set es. \<exists>p. getitem e ''path'' = Inr p \<Longrightarrow>
   scan_entries path es = Inr (find (\<lambda>e. getitem e ''path'' = Inr (JStr path)) es)"
  by (induction es) (auto split: sum.splits)

text \<open>
  C2. In a listing whose entries all have a \<open>path\<close> field, the lookup returns the first
  entry, in listing order, whose \<open>path\<close> equals the target exactly. The result is a function
  of the listing and the target, so a repeated lookup returns the same entry.
\<close>

theorem extract_tree_entry_first_match:
  assumes "resp_error r = None"
    and "json_loads env (response_text env r) = Inr (JArr es)"
    and "\<forall>e \<in> set es. \<exists>p. getitem e ''path'' = Inr p"
    and "find (\<lambda>e. getitem e ''path'' = Inr (JStr path)) es = Some entry"
  shows "extract_tree_entry env path r = Inr entry"
  using assms scan_entries_find [of es path]
  by (simp add: extract_tree_entry_def)

theorem extract_tree_entry_first_match_witness:
  "extract_tree_entry example_env ''a.ipynb'' example_response =
     Inr (JObj [(''name'', JStr ''a.ipynb''), (''type'', JStr ''file''),
                (''path'', JStr ''a.ipynb''),
                (''html_url'', JStr ''https://gitlab.com/u/r/blob/master/a.ipynb'')])"
  by (rule extract_tree_entry_first_match [where es = "case example_listing of JArr es \<Rightarrow> es"])
     (simp_all add: example_env_def example_response_def example_listing_def)

text \<open>
  C3. When no entry of the listing has the target path, the lookup does not raise
  \<open>HTTPError(404)\<close>: the loop falls through to \<open>len(data['tree'])\<close>, and \<open>data\<close>, the list
  that was just scanned, cannot be indexed by a string, which raises \<open>TypeError\<close>.
\<close>

theorem extract_tree_entry_absent_raises_TypeError:
  assumes "resp_error r = None"
    and "json_loads env (response_text env r) = Inr (JArr es)"
    and "\<forall>e \<in> set es. \<exists>p. getitem e ''path'' = Inr p \<and> p \<noteq> JStr path"
  shows "extract_tree_entry env path r = Inl TypeError"
proof -
  from assms(3) have "\<forall>e \<in> set es. \<exists>p. getitem e ''path'' = Inr p"
    by blast
  then have scan: "scan_entries path es = Inr (find (\<lambda>e. getitem e ''path'' = Inr (JStr path)) es)"
    by (rule scan_entries_find)
  from assms(3) have "find (\<lambda>e. getitem e ''path'' = Inr (JStr path)) es = None"
    by (auto simp: find_None_iff)
  with scan assms(1,2) show ?thesis
    by (simp add: extract_tree_entry_def)
qed

theorem extract_tree_entry_absent_raises_TypeError_witness:
  "extract_tree_entry example_env ''missing.ipynb'' example_response = Inl TypeError"
  by (rule extract_tree_entry_absent_raises_TypeError
        [where es = "case example_listing of JArr es \<Rightarrow> es"])
     (simp_all add: example_env_def example_response_def example_listing_def)

text \<open>
  Whatever \<open>json.loads\<close> returns, the lookup never raises the \<open>HTTPError\<close> of its last line:
  a list and a string cannot be indexed by \<open>'tree'\<close>, an empty dict has no key \<open>'tree'\<close>, and
  the keys of a dict that is not empty are strings, which \<open>entry['path']\<close> cannot index.
\<close>

lemma scan_entries_strings:
  "scan_entries path (map (\<lambda>x. JStr (f x)) xs) = (if xs = [] then Inr None else Inl TypeError)"
  by (cases xs) simp_all

lemma getitem_no_HTTPError: "getitem v k \<noteq> Inl (HTTPError code msg)"
  by (cases v) (simp_all split: option.splits)

lemma scan_entries_no_HTTPError: "scan_entries path es \<noteq> Inl (HTTPError code msg)"
  by (induction es) (auto simp: getitem_no_HTTPError split: sum.splits)

lemma extract_tree_entry_never_404:
  assumes "resp_error r = None"
    and "json_loads env (response_text env r) = Inr data"
  shows "extract_tree_entry env path r \<noteq> Inl (HTTPError code msg)"
proof (cases data)
  case (JArr es)
  with assms scan_entries_no_HTTPError [of path es code msg] show ?thesis
    by (auto simp: extract_tree_entry_def split: sum.splits option.splits)
next
  case (JObj kvs)
  with assms show ?thesis
    by (simp add: extract_tree_entry_def scan_entries_strings)
next
  case (JStr s)
  with assms show ?thesis
    by (simp add: extract_tree_entry_def scan_entries_strings)
qed (use assms in \<open>simp_all add: extract_tree_entry_def\<close>)

section \<open>The API client\<close>

lemma map_of_dict_set: "map_of (dict_set d k v) = (map_of d)(k \<mapsto> v)"
  by (induction d) (auto simp: fun_eq_iff)

lemma authenticate_eq:
  "authenticate token = (if token = [] then [] else [(''private_token'', PStr token)])"
  by (simp add: authenticate_def)

lemma fetch_sent:
  assumes "fetch (AsyncGitLabClient_init env base token) url callback params kwargs = Inr req"
  shows "startswith (req_url req) (gitlab_api_url (AsyncGitLabClient_init env base token))
         \<and> (token \<noteq> [] \<longrightarrow> map_of (req_params req) ''private_token'' = Some (PStr token))"
  using assms
  by (auto simp: fetch_def AsyncGitLabClient_init_def authenticate_eq map_of_dict_set Let_def
        split: if_splits)

lemma call_fetch_sent:
  assumes "call_fetch (AsyncGitLabClient_init env base token) url callback kw = Inr req"
  shows "startswith (req_url req) (gitlab_api_url (AsyncGitLabClient_init env base token))
         \<and> (token \<noteq> [] \<longrightarrow> map_of (req_params req) ''private_token'' = Some (PStr token))"
  using assms by (auto simp: call_fetch_def split: if_splits dest: fetch_sent)

lemma gitlab_api_request_sent:
  assumes "gitlab_api_request env' (AsyncGitLabClient_init env base token) path callback kw = Inr req"
  shows "startswith (req_url req) (gitlab_api_url (AsyncGitLabClient_init env base token))
         \<and> (token \<noteq> [] \<longrightarrow> map_of (req_params req) ''private_token'' = Some (PStr token))"
  using assms unfolding gitlab_api_request_def by (rule call_fetch_sent)

lemma get_projects_sent:
  assumes "get_projects env' (AsyncGitLabClient_init env base token) user callback kw = Inr req"
  shows "startswith (req_url req) (gitlab_api_url (AsyncGitLabClient_init env base token))
         \<and> (token \<noteq> [] \<longrightarrow> map_of (req_params req) ''private_token'' = Some (PStr token))"
  using assms
  by (auto simp: get_projects_def split: sum.splits if_splits dest: gitlab_api_request_sent)

lemma get_file_sent:
  assumes "get_file env' (AsyncGitLabClient_init env base token) user repo path callback ref kw = Inr req"
  shows "startswith (req_url req) (gitlab_api_url (AsyncGitLabClient_init env base token))
         \<and> (token \<noteq> [] \<longrightarrow> map_of (req_params req) ''private_token'' = Some (PStr token))"
  using assms
  by (auto simp: get_file_def Let_def split: sum.splits dest: call_fetch_sent)

lemma get_contents_sent:
  assumes "get_contents env' (AsyncGitLabClient_init env base token) user repo path callback ref kw = Inr req"
  shows "startswith (req_url req) (gitlab_api_url (AsyncGitLabClient_init env base token))
         \<and> (token \<noteq> [] \<longrightarrow> map_of (req_params req) ''private_token'' = Some (PStr token))"
  using assms
  by (auto simp: get_contents_def split: sum.splits if_splits dest: gitlab_api_request_sent)

lemma get_tree_sent:
  assumes "get_tree env' (AsyncGitLabClient_init env base token) user repo path ref callback kw = Inr req"
  shows "startswith (req_url req) (gitlab_api_url (AsyncGitLabClient_init env base token))
         \<and> (token \<noteq> [] \<longrightarrow> map_of (req_params req) ''private_token'' = Some (PStr token))"
  using assms
  by (auto simp: get_tree_def Let_def split: sum.splits if_splits dest: call_fetch_sent)

lemma get_tree_entry_sent:
  assumes "get_tree_entry env' (AsyncGitLabClient_init env base token) user repo path ref callback kw = Inr req"
  shows "startswith (req_url req) (gitlab_api_url (AsyncGitLabClient_init env base token))
         \<and> (token \<noteq> [] \<longrightarrow> map_of (req_params req) ''private_token'' = Some (PStr token))"
  using assms
  by (auto simp: get_tree_entry_def Let_def split: option.splits if_splits dest: get_tree_sent)

text \<open>
  C8. For a client built from the environment, and for every method of the client that
  builds a request (\<open>fetch\<close>, \<open>gitlab_api_request\<close>, \<open>get_projects\<close>, \<open>get_file\<close>,
  \<open>get_contents\<close>, \<open>get_tree\<close>, \<open>get_tree_entry\<close>): a URL that does not start with the API
  base URL makes \<open>fetch\<close> raise \<open>ValueError\<close>, and nothing is handed to the HTTP client;
  every request that any of the methods hands to the HTTP client has a URL that starts
  with the API base URL; and when a token is configured, every such request has the token
  among its query parameters, under the key \<open>private_token\<close>.
\<close>

theorem client_requests_guarded:
  "(\<not> startswith url (gitlab_api_url (AsyncGitLabClient_init env base token)) \<longrightarrow>
      fetch (AsyncGitLabClient_init env base token) url callback params kwargs =
        Inl (ValueError (''Only fetch GitHub urls with GitHub auth ('' @ url @ '')'')))
   \<and> (startswith url (gitlab_api_url (AsyncGitLabClient_init env base token)) \<and> token \<noteq> [] \<longrightarrow>
        (\<exists>req. fetch (AsyncGitLabClient_init env base token) url callback params kwargs = Inr req
               \<and> req_url req = url
               \<and> map_of (req_params req) ''private_token'' = Some (PStr token)))
   \<and> (\<forall>req.
         fetch (AsyncGitLabClient_init env base token) url callback params kwargs = Inr req
         \<or> gitlab_api_request env (AsyncGitLabClient_init env base token) path callback kw = Inr req
         \<or> get_projects env (AsyncGitLabClient_init env base token) user callback kw = Inr req
         \<or> get_file env (AsyncGitLabClient_init env base token) user repo file_path callback ref kw
              = Inr req
         \<or> get_contents env (AsyncGitLabClient_init env base token) user repo path callback ref kw
              = Inr req
         \<or> get_tree env (AsyncGitLabClient_init env base token) user repo tree_path ref callback kw
              = Inr req
         \<or> get_tree_entry env (AsyncGitLabClient_init env base token) user repo path ref callback kw
              = Inr req
         \<longrightarrow> startswith (req_url req) (gitlab_api_url (AsyncGitLabClient_init env base token))
             \<and> (token \<noteq> [] \<longrightarrow>
                  map_of (req_params req) ''private_token'' = Some (PStr token)))"
proof (intro conjI allI impI)
  assume "\<not> startswith url (gitlab_api_url (AsyncGitLabClient_init env base token))"
  then show "fetch (AsyncGitLabClient_init env base token) url callback params kwargs =
        Inl (ValueError (''Only fetch GitHub urls with GitHub auth ('' @ url @ '')''))"
    by (simp add: fetch_def)
next
  assume "startswith url (gitlab_api_url (AsyncGitLabClient_init env base token)) \<and> token \<noteq> []"
  then show "\<exists>req. fetch (AsyncGitLabClient_init env base token) url callback params kwargs = Inr req
               \<and> req_url req = url
               \<and> map_of (req_params req) ''private_token'' = Some (PStr token)"
    by (simp add: fetch_def AsyncGitLabClient_init_def authenticate_eq map_of_dict_set Let_def)
next
  fix req
  assume sent: "fetch (AsyncGitLabClient_init env base token) url callback params kwargs = Inr req
         \<or> gitlab_api_request env (AsyncGitLabClient_init env base token) path callback kw = Inr req
         \<or> get_projects env (AsyncGitLabClient_init env base token) user callback kw = Inr req
         \<or> get_file env (AsyncGitLabClient_init env base token) user repo file_path callback ref kw
              = Inr req
         \<or> get_contents env (AsyncGitLabClient_init env base token) user repo path callback ref kw
              = Inr req
         \<or> get_tree env (AsyncGitLabClient_init env base token) user repo tree_path ref callback kw
              = Inr req
         \<or> get_tree_entry env (AsyncGitLabClient_init env base token) user repo path ref callback kw
              = Inr req"
  then have both: "startswith (req_url req) (gitlab_api_url (AsyncGitLabClient_init env base token))
         \<and> (token \<noteq> [] \<longrightarrow> map_of (req_params req) ''private_token'' = Some (PStr token))"
    by (elim disjE)
      (erule fetch_sent gitlab_api_request_sent get_projects_sent get_file_sent
         get_contents_sent get_tree_sent get_tree_entry_sent)+
  from both show "startswith (req_url req) (gitlab_api_url (AsyncGitLabClient_init env base token))"
    by simp
  assume "token \<noteq> []"
  with both show "map_of (req_params req) ''private_token'' = Some (PStr token)"
    by simp
qed


theorem client_requests_guarded_witness:
  "fetch (AsyncGitLabClient_init example_env ''https://gitlab.com'' ''s3cret'')
         ''https://example.org/api/v3/projects'' PNone None Map.empty
     = Inl (ValueError ''Only fetch GitHub urls with GitHub auth (https://example.org/api/v3/projects)'')
   \<and> (\<exists>req. fetch (AsyncGitLabClient_init example_env ''https://gitlab.com'' ''s3cret'')
                ''https://gitlab.com/api/v3/projects'' PNone (Some [(''page'', PStr ''2'')]) Map.empty
                = Inr req
            \<and> req_url req = ''https://gitlab.com/api/v3/projects''
            \<and> map_of (req_params req) ''private_token'' = Some (PStr ''s3cret''))
   \<and> (\<exists>req. get_tree example_env (AsyncGitLabClient_init example_env ''https://gitlab.com'' ''s3cret'')
                ''u'' ''r'' (PStr ''docs'') (PStr ''master'') PNone
                \<lparr>kw_params = Absent, kw_rest = Map.empty\<rparr> = Inr req
            \<and> startswith (req_url req)
                 (gitlab_api_url (AsyncGitLabClient_init example_env ''https://gitlab.com'' ''s3cret''))
            \<and> map_of (req_params req) ''private_token'' = Some (PStr ''s3cret''))"
proof -
  let ?c = "AsyncGitLabClient_init example_env ''https://gitlab.com'' ''s3cret''"
  let ?kw = "\<lparr>kw_params = Absent, kw_rest = Map.empty\<rparr>"
  obtain req where sent:
    "get_tree example_env ?c ''u'' ''r'' (PStr ''docs'') (PStr ''master'') PNone ?kw = Inr req"
    by (simp add: get_tree_def setdefault_params_def params_setitem_def call_fetch_def clash_def
          fetch_def AsyncGitLabClient_init_def example_env_def startswith_def authenticate_eq
          Let_def)
  from sent
    client_requests_guarded [of "''https://gitlab.com/api/v3/projects''" example_env
      "''https://gitlab.com''" "''s3cret''" PNone "Some [(''page'', PStr ''2'')]" Map.empty
      "''projects''" ?kw "''u''" "''r''" PNone "PStr ''master''" "PStr ''docs''"]
    client_requests_guarded [of "''https://example.org/api/v3/projects''" example_env
      "''https://gitlab.com''" "''s3cret''" PNone None Map.empty
      "''projects''" ?kw "''u''" "''r''" PNone "PStr ''master''" "PStr ''docs''"]
  show ?thesis
    by (simp add: AsyncGitLabClient_init_def example_env_def startswith_def)
qed

text \<open>
  C9. \<open>get_tree_entry\<close> sends no tree request, recursive or not: its call of \<open>get_tree\<close>
  leaves the required parameter \<open>path\<close> unbound and raises \<open>TypeError\<close>, whether the target
  path contains \<open>/\<close> or not. (\<open>**kwargs\<close> of \<open>get_tree_entry\<close> never holds a keyword \<open>path\<close>:
  such a keyword binds its own parameter \<open>path\<close>.)
\<close>

theorem get_tree_entry_raises_TypeError:
  "kw_rest kwargs ''path'' = None \<Longrightarrow>
   get_tree_entry env c user repo path ref callback kwargs = Inl TypeError"
  by (simp add: get_tree_entry_def Let_def)

theorem get_tree_entry_raises_TypeError_witness:
  "get_tree_entry example_env (AsyncGitLabClient_init example_env ''https://gitlab.com'' ''s3cret'')
     ''u'' ''r'' ''docs/a.ipynb'' (PStr ''master'') PNone \<lparr>kw_params = Absent, kw_rest = Map.empty\<rparr>
   = Inl TypeError"
  by (rule get_tree_entry_raises_TypeError) simp

text \<open>
  C10. \<open>get_projects\<close>, called with a dict of parameters, sends its request with the
  parameter \<open>sudo\<close> equal to the user, whatever \<open>sudo\<close> the caller's dict held: the request
  is sent when the joined URL lies under the API base URL, and any request that is sent
  has \<open>sudo\<close> equal to the user.
\<close>

theorem get_projects_sudo:
  assumes "kw_params kwargs = Given p"
    and "\<not> clash [''path'', ''callback'', ''url''] kwargs"
  shows "(startswith (url_path_join env (gitlab_api_url (AsyncGitLabClient_init env base token))
                        (quote env ''projects''))
                     (gitlab_api_url (AsyncGitLabClient_init env base token)) \<longrightarrow>
            (\<exists>req. get_projects env (AsyncGitLabClient_init env base token) user callback kwargs = Inr req
                   \<and> map_of (req_params req) ''sudo'' = Some (PStr user)))
         \<and> (\<forall>req. get_projects env (AsyncGitLabClient_init env base token) user callback kwargs = Inr req
                \<longrightarrow> map_of (req_params req) ''sudo'' = Some (PStr user))"
  using assms
  by (auto simp: get_projects_def setdefault_params_def params_setitem_def clash_def
        gitlab_api_request_def call_fetch_def fetch_def AsyncGitLabClient_init_def
        authenticate_eq map_of_dict_set Let_def)

theorem get_projects_sudo_witness:
  "\<exists>req. get_projects example_env
            (AsyncGitLabClient_init example_env ''https://gitlab.com'' ''s3cret'') ''alice'' PNone
            \<lparr>kw_params = Given [(''sort'', PStr ''desc''), (''sudo'', PStr ''mallory'')],
             kw_rest = Map.empty\<rparr> = Inr req
         \<and> map_of (req_params req) ''sudo'' = Some (PStr ''alice'')"
  using get_projects_sudo
          [of "\<lparr>kw_params = Given [(''sort'', PStr ''desc''), (''sudo'', PStr ''mallory'')],
                kw_rest = Map.empty\<rparr>"
              "[(''sort'', PStr ''desc''), (''sudo'', PStr ''mallory'')]"
              example_env "''https://gitlab.com''" "''s3cret''" "''alice''" PNone]
  by (simp add: clash_def AsyncGitLabClient_init_def example_env_def startswith_def)

section \<open>The content classifier and the tree handler\<close>

text \<open>
  What the classifier computes. On a listing of classifiable items the three lists are
  the entries of the items that go to \<open>dirs\<close>, to \<open>ipynbs\<close> and to \<open>others\<close>, each in the
  order of the listing; the result is their concatenation in that order, one entry for
  each item, and the three groups of items are a permutation of the listing. On an item
  that is not classifiable the body of the loop raises.
\<close>

lemma classify_file_classifiable:
  assumes "classifiable file"
  shows "classify_file env user repo ref (ds, ns, os) file =
           Inr (if in_dirs file then (ds @ [entry_of env user repo ref file], ns, os)
                else if in_ipynbs file then (ds, ns @ [entry_of env user repo ref file], os)
                else (ds, ns, os @ [entry_of env user repo ref file]))"
proof -
  from assms obtain kvs where obj: "file = JObj kvs"
    by (cases "file") (simp_all add: classifiable_def)
  with assms obtain name where name: "map_of kvs ''name'' = Some name"
    by (cases "map_of kvs ''name''") (simp_all add: classifiable_def)
  with assms obj obtain ty where ty: "map_of kvs ''type'' = Some ty"
    by (cases "map_of kvs ''type''") (simp_all add: classifiable_def)
  show ?thesis
  proof (cases "ty = JStr ''dir''")
    case True
    with assms obj name ty obtain p where "map_of kvs ''path'' = Some p"
      by (auto simp: classifiable_def)
    with True obj name ty show ?thesis
      by (simp add: classify_file_def in_dirs_def entry_of_def field_def)
  next
    case False
    with assms obj name ty obtain n where n: "name = JStr n"
      by (auto simp: classifiable_def split: json.splits)
    show ?thesis
    proof (cases "endswith n ''.ipynb''")
      case True
      with assms obj name ty n \<open>ty \<noteq> JStr ''dir''\<close> obtain p where "map_of kvs ''path'' = Some p"
        by (auto simp: classifiable_def)
      with True False obj name ty n show ?thesis
        by (simp add: classify_file_def in_dirs_def in_ipynbs_def entry_of_def field_def
              py_endswith_def)
    next
      case notnb: False
      with assms obj name ty n \<open>ty \<noteq> JStr ''dir''\<close> obtain h where "map_of kvs ''html_url'' = Some h"
        by (auto simp: classifiable_def)
      with notnb False obj name ty n show ?thesis
        by (simp add: classify_file_def in_dirs_def in_ipynbs_def entry_of_def field_def
              py_endswith_def)
    qed
  qed
qed


lemma classify_file_raises:
  assumes "\<not> classifiable file"
  shows "\<exists>e. classify_file env user repo ref (ds, ns, os) file = Inl e"
proof (cases "\<exists>name ty. getitem file ''name'' = Inr name \<and> getitem file ''type'' = Inr ty")
  case False
  then show ?thesis
    by (auto simp: classify_file_def split: sum.splits)
next
  case True
  then obtain name ty where name: "getitem file ''name'' = Inr name"
    and ty: "getitem file ''type'' = Inr ty"
    by blast
  then obtain kvs where obj: "file = JObj kvs"
    by (cases "file") simp_all
  from name ty obj have keys: "map_of kvs ''name'' = Some name" "map_of kvs ''type'' = Some ty"
    by (simp_all split: option.splits)
  show ?thesis
  proof (cases "ty = JStr ''dir''")
    case True
    with assms obj keys have "map_of kvs ''path'' = None"
      by (simp add: classifiable_def)
    with True name ty obj show ?thesis
      by (simp add: classify_file_def)
  next
    case False
    show ?thesis
    proof (cases name)
      case (JStr n)
      show ?thesis
      proof (cases "endswith n ''.ipynb''")
        case True
        with assms obj keys JStr False have "map_of kvs ''path'' = None"
          by (simp add: classifiable_def)
        with True False JStr name ty obj show ?thesis
          by (simp add: classify_file_def py_endswith_def)
      next
        case notnb: False
        with assms obj keys JStr False have "map_of kvs ''html_url'' = None"
          by (simp add: classifiable_def)
        with notnb False JStr name ty obj show ?thesis
          by (simp add: classify_file_def py_endswith_def)
      qed
    qed (use False name ty in \<open>simp_all add: classify_file_def py_endswith_def\<close>)
  qed
qed

lemma classify_loop_groups:
  assumes "\<forall>file \<in> set files. classifiable file"
  shows "classify_loop env user repo ref (ds, ns, os) files =
           Inr (ds @ map (entry_of env user repo ref) (filter in_dirs files),
                ns @ map (entry_of env user repo ref) (filter in_ipynbs files),
                os @ map (entry_of env user repo ref) (filter in_others files))"
  using assms
proof (induction files arbitrary: ds ns os)
  case Nil
  then show ?case by simp
next
  case (Cons f fs)
  then have first: "classifiable f" and rest: "\<forall>x \<in> set fs. classifiable x"
    by simp_all
  from classify_file_classifiable [OF first] Cons.IH [OF rest]
  show ?case
    by (simp add: in_others_def in_ipynbs_def)
qed

lemma lists_partition:
  "mset (filter in_dirs files @ filter in_ipynbs files @ filter in_others files) = mset files"
  by (induction files) (auto simp: in_others_def in_ipynbs_def)

lemma classify_three_lists:
  assumes "\<forall>file \<in> set contents. classifiable file"
  shows "classify_loop env user repo ref ([], [], []) contents =
           Inr (map (entry_of env user repo ref) (filter in_dirs contents),
                map (entry_of env user repo ref) (filter in_ipynbs contents),
                map (entry_of env user repo ref) (filter in_others contents))
         \<and> classify env user repo ref contents =
             Inr (map (entry_of env user repo ref)
                    (filter in_dirs contents @ filter in_ipynbs contents
                     @ filter in_others contents))
         \<and> mset (filter in_dirs contents @ filter in_ipynbs contents @ filter in_others contents)
             = mset contents"
  using classify_loop_groups [OF assms, of env user repo ref "[]" "[]" "[]"]
    lists_partition [of contents]
  by (simp add: classify_def)

lemma classify_example_listing:
  "classify example_env ''u'' ''r'' ''master'' (case example_listing of JArr files \<Rightarrow> files) =
     Inr [\<lparr>e_name = JStr ''sub'', e_url = JStr ''/github/u/r/tree/master/sub'',
             e_class = ''fa-folder-open''\<rparr>,
          \<lparr>e_name = JStr ''a.ipynb'', e_url = JStr ''/github/u/r/blob/master/a.ipynb'',
             e_class = ''fa-book''\<rparr>,
          \<lparr>e_name = JStr ''README.md'',
             e_url = JStr ''https://gitlab.com/u/r/blob/master/README.md'',
             e_class = ''fa-share''\<rparr>,
          \<lparr>e_name = JStr ''mod'', e_url = JStr [], e_class = ''fa-folder-close''\<rparr>]"
proof -
  have wf: "\<forall>file \<in> set (case example_listing of JArr files \<Rightarrow> files). classifiable file"
    by (simp add: example_listing_def classifiable_def endswith_def)
  from classify_three_lists [OF wf, of example_env "''u''" "''r''" "''master''"]
  show ?thesis
    by (simp add: example_listing_def example_env_def entry_of_def in_dirs_def in_ipynbs_def
          in_others_def field_def format_value_def endswith_def)
qed

text \<open>
  C1. The first group does not hold the directories of a tree listing. A directory of a
  tree listing has the type tag \<open>tree\<close>, and the classifier tests for \<open>dir\<close>: on the listing
  of the notebook \<open>a.ipynb\<close> (a \<open>blob\<close>) followed by the directory \<open>docs\<close> (a \<open>tree\<close>), the
  directory goes to \<open>others\<close>. Its entry comes after the notebook's entry, and it is
  shown as a link to the upstream page (\<open>fa-share\<close>), not as a directory.
\<close>

theorem classify_tree_after_notebook:
  "classify env user repo ref
     [JObj [(''name'', JStr ''a.ipynb''), (''type'', JStr ''blob''), (''path'', JStr ''a.ipynb''),
            (''html_url'', JStr ''https://gitlab.com/u/r/blob/master/a.ipynb'')],
      JObj [(''name'', JStr ''docs''), (''type'', JStr ''tree''), (''path'', JStr ''docs''),
            (''html_url'', JStr ''https://gitlab.com/u/r/tree/master/docs'')]]
   = Inr [\<lparr>e_name = JStr ''a.ipynb'',
            e_url = JStr (quote env (''/github/'' @ user @ ''/'' @ repo @ ''/blob/'' @ ref
                                    @ ''/a.ipynb'')),
            e_class = ''fa-book''\<rparr>,
          \<lparr>e_name = JStr ''docs'', e_url = JStr ''https://gitlab.com/u/r/tree/master/docs'',
            e_class = ''fa-share''\<rparr>]"
  by (simp add: classify_def classify_file_def py_endswith_def endswith_def format_value_def)

text \<open>
  An item of the third kind that has no key \<open>html_url\<close> (a display URL that is absent, not
  null) makes the classifier raise \<open>KeyError\<close>: no group is produced.
\<close>

lemma classify_missing_html_url:
  "classify env user repo ref
     [JObj [(''name'', JStr ''README.md''), (''type'', JStr ''blob''),
            (''path'', JStr ''README.md'')]]
   = Inl (KeyError ''html_url'')"
  by (simp add: classify_def classify_file_def py_endswith_def endswith_def)

text \<open>
  C7. The navigation URL of a directory and of a notebook is built from \<open>/github/\<close>, not
  from this provider's route \<open>/gitlab/\<close>: for a directory it is
  \<open>quote('/github/<user>/<repo>/tree/<ref>/<path>')\<close>, for a notebook
  \<open>quote('/github/<user>/<repo>/blob/<ref>/<path>')\<close>.
\<close>

theorem classify_links_to_github:
  "classify env user repo ref
     [JObj [(''name'', JStr ''sub''), (''type'', JStr ''dir''), (''path'', JStr p),
            (''html_url'', h)],
      JObj [(''name'', JStr ''a.ipynb''), (''type'', JStr ''file''), (''path'', JStr q),
            (''html_url'', h')]]
   = Inr [\<lparr>e_name = JStr ''sub'',
            e_url = JStr (quote env (''/github/'' @ user @ ''/'' @ repo @ ''/tree/'' @ ref @ ''/'' @ p)),
            e_class = ''fa-folder-open''\<rparr>,
          \<lparr>e_name = JStr ''a.ipynb'',
            e_url = JStr (quote env (''/github/'' @ user @ ''/'' @ repo @ ''/blob/'' @ ref @ ''/'' @ q)),
            e_class = ''fa-book''\<rparr>]"
  by (simp add: classify_def classify_file_def py_endswith_def endswith_def format_value_def)

lemma refs_raises: "refs env h user repo = Inl (Raised (AttributeError ''get_branches''))"
  by (simp add: refs_def getattr_client_def AsyncGitLabClient_attrs_def catch_client_error_def)

text \<open>
  C6. A tree request whose URI ends in \<open>/\<close> and whose contents were fetched and parsed
  never reaches the test \<open>isinstance(contents, list)\<close>: \<open>refs\<close> looks up \<open>get_branches\<close> on
  the client, which has no such attribute, and the \<open>AttributeError\<close> leaves the handler.
  This holds for contents that are not a list as for any other: no redirect to a blob
  route is issued.
\<close>

theorem tree_handler_raises_AttributeError:
  assumes "endswith (request_uri h) ''/''"
    and "get_contents env (AsyncGitLabClient_init env (env_gitlab_url h) (env_gitlab_api_token h))
           user repo (rstrip_slash path) PNone (PStr ref) \<lparr>kw_params = Absent, kw_rest = Map.empty\<rparr>
         = Inr req"
    and "upstream h req = Inr response"
    and "json_loads env (response_text env response) = Inr contents"
  shows "GitLabTreeHandler_get env h user repo ref path = Raised (AttributeError ''get_branches'')"
  using assms by (simp add: GitLabTreeHandler_get_def refs_raises Let_def)

theorem tree_handler_raises_AttributeError_witness:
  "GitLabTreeHandler_get example_env example_handler ''u'' ''r'' ''master'' ''a.ipynb/''
     = Raised (AttributeError ''get_branches'')"
  by (rule tree_handler_raises_AttributeError
        [where response = "\<lparr>resp_error = None, resp_body = ''file''\<rparr>"
           and contents = "JObj [(''content'', JStr ''e30='')]"
           and req = "\<lparr>req_url = ''https://gitlab.com/api/v3/repos/u/r/contents/a.ipynb'',
                        req_params = [(''ref'', PStr ''master''), (''private_token'', PStr ''s3cret'')],
                        req_callback = PNone,
                        req_kwargs = [''user_agent'' \<mapsto> PStr ''Tornado-Async-GitLab-Client'']\<rparr>"])
     (simp_all add: example_handler_def example_env_def endswith_def get_contents_def
        setdefault_params_def params_setitem_def clash_def gitlab_api_request_def call_fetch_def
        fetch_def AsyncGitLabClient_init_def authenticate_def startswith_def rstrip_slash_def)

section \<open>The URL rewrite rules\<close>

lemma lex_plain:
  "plain_url base \<Longrightarrow>
   re_lex None (replace_dot base @ rest) = map_option (\<lambda>ts. map TChr base @ ts) (re_lex None rest)"
proof (induction base)
  case Nil
  then show ?case by (simp add: replace_dot_def option.map_ident)
next
  case (Cons c base)
  then have IH: "re_lex None (replace_dot base @ rest) = map_option (\<lambda>ts. map TChr base @ ts) (re_lex None rest)"
    by (simp add: plain_url_def)
  from Cons.prems have c: "c \<notin> set (CHR 0x5C # ''^$|?*+()[]{}'')"
    by (simp add: plain_url_def)
  show ?case
  proof (cases "c = CHR ''.''")
    case True
    have "replace_dot (CHR ''.'' # base) = CHR 0x5C # CHR ''.'' # replace_dot base"
      by (simp add: replace_dot_def)
    with True show ?thesis
      by (simp add: IH is_alnum_def option.map_comp comp_def)
  next
    case False
    then have "replace_dot (c # base) = c # replace_dot base"
      by (simp add: replace_dot_def)
    with False c show ?thesis
      by (simp add: IH option.map_comp comp_def)
  qed
qed

lemma segs_chars: "segs acc False (map TChr base @ ts) = segs (acc @ map TChr base) False ts"
  by (induction base arbitrary: acc) simp_all

lemma items_chars:
  "items (map TChr base @ [TChr c]) = Some (map (\<lambda>x. One (Only x)) base @ [One (Only c)])"
proof (induction base)
  case Nil
  then show ?case by simp
next
  case (Cons a base)
  then show ?case by (cases base) simp_all
qed

lemma re_compile_rule:
  assumes "plain_url base"
  shows "re_compile (fst (hd (uri_rewrites base rewrites))) =
           Some [Run (Bol # map (\<lambda>x. One (Only x)) base @ [One (Only CHR ''/'')]),
                 Group [[Plus (NoneOf ''/'')]],
                 Run [One (Only CHR ''/'')],
                 Group [[Plus (NoneOf ''/'')]],
                 Run [One (Only CHR ''/'')],
                 Group [[One (Only CHR ''b''), One (Only CHR ''l''), One (Only CHR ''o''), One (Only CHR ''b'')],
                        [One (Only CHR ''t''), One (Only CHR ''r''), One (Only CHR ''e''), One (Only CHR ''e'')]],
                 Run [One (Only CHR ''/'')],
                 Group [[Star Any]],
                 Run [Eol]]"
  using items_chars [of base "CHR ''/''"]
  by (simp add: uri_rewrites_def re_compile_def lex_plain [OF assms] is_alnum_def segs_chars
        piece_of_def)


lemma m_items_literal:
  "m_items n (map (\<lambda>x. One (Only x)) lit @ its) cont (lit @ t) = m_items n its cont t"
  by (induction lit) simp_all

lemma m_star_until:
  assumes "\<forall>x \<in> set u. in_cls k x"
    and "\<not> in_cls k c"
    and "\<And>x s. in_cls k x \<Longrightarrow> cont (x # s) = None"
  shows "m_star k cont (u @ c # t) = cont (c # t)"
  using assms(1)
proof (induction u)
  case Nil
  show ?case by (simp add: assms(2))
next
  case (Cons x u)
  then show ?case by (simp add: assms(3) split: option.split)
qed

lemma m_star_all:
  assumes "\<forall>x \<in> set r. in_cls k x" and "cont [] = Some v"
  shows "m_star k cont r = Some v"
  using assms by (induction r) simp_all

lemma m_group_segment:
  assumes "u \<noteq> []" and "CHR ''/'' \<notin> set u"
  shows "m_pieces n (Group [[Plus (NoneOf ''/'')]] # Run [One (Only CHR ''/'')] # ps) gs
           (u @ CHR ''/'' # t) = m_pieces n ps (gs @ [u]) t"
proof -
  from assms(1) obtain x u' where u: "u = x # u'"
    by (cases u) auto
  with assms(2) have x: "in_cls (NoneOf ''/'') x" and u': "\<forall>y \<in> set u'. in_cls (NoneOf ''/'') y"
    by auto
  define cont where
    "cont = (\<lambda>s'. m_pieces n (Run [One (Only CHR ''/'')] # ps)
                    (gs @ [take (length (u @ CHR ''/'' # t) - length s') (u @ CHR ''/'' # t)]) s')"
  have fails: "\<And>y s. in_cls (NoneOf ''/'') y \<Longrightarrow> m_items n [] cont (y # s) = None"
    by (simp add: cont_def)
  have slash: "\<not> in_cls (NoneOf ''/'') (CHR ''/'')"
    by simp
  have "m_pieces n (Group [[Plus (NoneOf ''/'')]] # Run [One (Only CHR ''/'')] # ps) gs
          (u @ CHR ''/'' # t) = m_alts n [[Plus (NoneOf ''/'')]] cont (u @ CHR ''/'' # t)"
    unfolding cont_def by (rule m_pieces.simps)
  also have "\<dots> = m_star (NoneOf ''/'') (m_items n [] cont) (u' @ CHR ''/'' # t)"
    using x by (simp add: u del: in_cls.simps split: option.split)
  also have "\<dots> = m_items n [] cont (CHR ''/'' # t)"
    using u' slash fails by (rule m_star_until)
  also have "\<dots> = m_pieces n ps (gs @ [u]) t"
    by (simp add: cont_def)
  finally show ?thesis .
qed

lemma m_group_kind:
  assumes "kind = ''blob'' \<or> kind = ''tree''"
  shows "m_pieces n (Group [[One (Only CHR ''b''), One (Only CHR ''l''), One (Only CHR ''o''), One (Only CHR ''b'')],
                        [One (Only CHR ''t''), One (Only CHR ''r''), One (Only CHR ''e''), One (Only CHR ''e'')]]
                     # Run [One (Only CHR ''/'')] # ps) gs (kind @ CHR ''/'' # t)
         = m_pieces n ps (gs @ [kind]) t"
proof -
  define cont where
    "cont = (\<lambda>s'. m_pieces n (Run [One (Only CHR ''/'')] # ps)
                    (gs @ [take (length (kind @ CHR ''/'' # t) - length s') (kind @ CHR ''/'' # t)])
                    s')"
  have "m_pieces n (Group [[One (Only CHR ''b''), One (Only CHR ''l''), One (Only CHR ''o''), One (Only CHR ''b'')],
                        [One (Only CHR ''t''), One (Only CHR ''r''), One (Only CHR ''e''), One (Only CHR ''e'')]]
                     # Run [One (Only CHR ''/'')] # ps) gs (kind @ CHR ''/'' # t)
        = m_alts n [[One (Only CHR ''b''), One (Only CHR ''l''), One (Only CHR ''o''), One (Only CHR ''b'')],
                      [One (Only CHR ''t''), One (Only CHR ''r''), One (Only CHR ''e''), One (Only CHR ''e'')]] cont
            (kind @ CHR ''/'' # t)"
    unfolding cont_def by (rule m_pieces.simps)
  also have "\<dots> = cont (CHR ''/'' # t)"
    using assms by (auto split: option.split)
  also have "\<dots> = m_pieces n ps (gs @ [kind]) t"
    by (simp add: cont_def)
  finally show ?thesis .
qed

lemma m_group_rest:
  assumes "CHR 0x0A \<notin> set rest"
  shows "m_pieces n [Group [[Star Any]], Run [Eol]] gs rest = Some (gs @ [rest])"
proof -
  define cont where
    "cont = (\<lambda>s'. m_pieces n [Run [Eol]] (gs @ [take (length rest - length s') rest]) s')"
  have "m_pieces n [Group [[Star Any]], Run [Eol]] gs rest = m_alts n [[Star Any]] cont rest"
    unfolding cont_def by (rule m_pieces.simps)
  also have "\<dots> = m_star Any (m_items n [] cont) rest"
    by (simp split: option.split)
  also have "\<dots> = Some (gs @ [rest])"
    using assms by (intro m_star_all) (auto simp: cont_def)
  finally show ?thesis .
qed

lemma m_run_prefix:
  assumes "length (lit @ c # t) = n"
  shows "m_pieces n (Run (Bol # map (\<lambda>x. One (Only x)) lit @ [One (Only c)]) # ps) gs
           (lit @ c # t) = m_pieces n ps gs t"
proof -
  define cont where "cont = (\<lambda>s'. m_pieces n ps gs s')"
  have "m_pieces n (Run (Bol # map (\<lambda>x. One (Only x)) lit @ [One (Only c)]) # ps) gs
          (lit @ c # t)
        = m_items n (Bol # map (\<lambda>x. One (Only x)) lit @ [One (Only c)]) cont (lit @ c # t)"
    unfolding cont_def by (rule m_pieces.simps)
  also have "\<dots> = cont t"
    using assms by (simp add: m_items_literal)
  finally show ?thesis
    by (simp add: cont_def)
qed

lemma re_match_rule:
  assumes "plain_url base"
    and "user \<noteq> []" and "CHR ''/'' \<notin> set user"
    and "repo \<noteq> []" and "CHR ''/'' \<notin> set repo"
    and "kind = ''blob'' \<or> kind = ''tree''"
    and "CHR 0x0A \<notin> set rest"
  shows "re_match (fst (hd (uri_rewrites base rewrites)))
           (base @ ''/'' @ user @ ''/'' @ repo @ ''/'' @ kind @ ''/'' @ rest)
         = Some (Some [user, repo, kind, rest])"
proof -
  have uri: "base @ ''/'' @ user @ ''/'' @ repo @ ''/'' @ kind @ ''/'' @ rest
               = base @ CHR ''/'' # user @ CHR ''/'' # repo @ CHR ''/'' # kind @ CHR ''/'' # rest"
    by simp
  show ?thesis
    unfolding uri re_match_def re_compile_rule [OF assms(1)]
    by (simp add: m_run_prefix m_group_segment [OF assms(2,3)] m_group_segment [OF assms(4,5)]
          m_group_kind [OF assms(6)] m_group_rest [OF assms(7)] del: m_pieces.simps)
qed

lemma format_rule:
  "py_format (snd (hd (uri_rewrites base rewrites))) [user, repo, kind, rest]
     = Some (''/gitlab/'' @ user @ ''/'' @ repo @ ''/'' @ kind @ ''/'' @ rest)"
  by (simp add: uri_rewrites_def)

text \<open>
  C4, amended. Let the base URL have no special character but the dot, let \<open>user\<close> and
  \<open>repo\<close> be segments (not empty, without \<open>/\<close>), and let \<open>rest\<close> hold no line feed. Then
  the URL \<open><base>/<user>/<repo>/blob/<rest>\<close> is rewritten to
  \<open>/gitlab/<user>/<repo>/blob/<rest>\<close>, and likewise for \<open>tree\<close>, with \<open>rest\<close> unchanged
  (spaces and bytes outside ASCII included), whatever rules follow in the list.
\<close>

theorem uri_rewrites_blob_tree:
  assumes "plain_url base"
    and "user \<noteq> []" and "CHR ''/'' \<notin> set user"
    and "repo \<noteq> []" and "CHR ''/'' \<notin> set repo"
    and "kind = ''blob'' \<or> kind = ''tree''"
    and "CHR 0x0A \<notin> set rest"
  shows "transform_ipynb_uri (base @ ''/'' @ user @ ''/'' @ repo @ ''/'' @ kind @ ''/'' @ rest)
           (uri_rewrites base rewrites)
         = Rewritten (''/gitlab/'' @ user @ ''/'' @ repo @ ''/'' @ kind @ ''/'' @ rest)"
proof -
  have rules: "uri_rewrites base rewrites = hd (uri_rewrites base rewrites) # rewrites"
    by (simp add: uri_rewrites_def)
  from re_match_rule [OF assms, of "rewrites"] show ?thesis
    by (subst rules) (simp add: format_rule)
qed

theorem uri_rewrites_blob_tree_witness:
  "transform_ipynb_uri (''https://gitlab.com/user/reopname/blob/deadbeef/'' @ test_tail)
     (uri_rewrites ''https://gitlab.com'' [])
   = Rewritten (''/gitlab/user/reopname/blob/deadbeef/'' @ test_tail)"
  using uri_rewrites_blob_tree [of "''https://gitlab.com''" "''user''" "''reopname''" "''blob''"
          "''deadbeef/'' @ test_tail" "[]"]
  by (simp add: plain_url_def test_tail_def)

text \<open>
  C4 as stated, for every \<open>rest\<close>, fails on a tail that ends in a line feed: \<open>(.*)$\<close>
  matches up to the line feed, and the rewritten URL has lost it.
\<close>

theorem uri_rewrites_line_feed_counterexample:
  "transform_ipynb_uri (''https://gitlab.com/user/repo/blob/a.ipynb'' @ [CHR 0x0A])
     (uri_rewrites ''https://gitlab.com'' [])
   = Rewritten ''/gitlab/user/repo/blob/a.ipynb''
   \<and> transform_ipynb_uri (''https://gitlab.com/user/repo/blob/a.ipynb'' @ [CHR 0x0A])
       (uri_rewrites ''https://gitlab.com'' [])
     \<noteq> Rewritten (''/gitlab/user/repo/blob/a.ipynb'' @ [CHR 0x0A])"
  by (simp add: uri_rewrites_def replace_dot_def re_match_def re_compile_def is_alnum_def
        piece_of_def)

text \<open>
  C5. The rule's pattern names \<open>blob\<close> and \<open>tree\<close> only: the \<open>raw\<close> URL of
  \<open>test_raw_uri\<close> matches no rule and is not rewritten to the blob route.
\<close>

theorem uri_rewrites_raw_not_rewritten:
  "transform_ipynb_uri (''https://gitlab.com/user/reopname/raw/deadbeef/'' @ test_tail)
     (uri_rewrites ''https://gitlab.com'' []) = NoRule"
  by (simp add: test_tail_def uri_rewrites_def replace_dot_def re_match_def re_compile_def
        is_alnum_def piece_of_def)

end
